theory Spec2Isabelle
  imports Complex_Main "HOL-Library.AList"
begin

section \<open>Values, frames and errors\<close>

text \<open>
  The engine of \<^verbatim>\<open>ml_api_server.py\<close> (class \<^verbatim>\<open>StockPredictor\<close>) works on pandas
  frames of Python floats. A float is modelled as the \<^typ>\<open>real\<close> it denotes; the value
  NaN, which pandas uses for an undefined cell, is \<open>None\<close>. Market data and indicator
  columns hold finite values or NaN. Signal fusion and the simulation compute with exact
  arithmetic. The label thresholds are the one place where a claim is about the exact
  outcome of a float operation, so \<^verbatim>\<open>generate_labels\<close> rounds every operation to
  a double (\<open>to_double\<close> below) and has a type of its own for the infinities a division
  by zero gives. A frame is the ordered list of its columns, each a name with its values;
  assigning a column replaces it in place or appends it, which is \<^const>\<open>AList.update\<close>.
\<close>

type_synonym cell = "real option"

type_synonym frame = "(string \<times> cell list) list"

datatype py_error = KeyError | IndexError | ValueError | AttributeError

text \<open>Every comparison with NaN is false.\<close>

definition cell_lt :: "cell \<Rightarrow> cell \<Rightarrow> bool" where
  "cell_lt a b = (case a of None \<Rightarrow> False | Some x \<Rightarrow> (case b of None \<Rightarrow> False | Some y \<Rightarrow> x < y))"

definition cell_le :: "cell \<Rightarrow> cell \<Rightarrow> bool" where
  "cell_le a b = (case a of None \<Rightarrow> False | Some x \<Rightarrow> (case b of None \<Rightarrow> False | Some y \<Rightarrow> x \<le> y))"

definition cell_gt :: "cell \<Rightarrow> cell \<Rightarrow> bool" where
  "cell_gt a b = cell_lt b a"

definition cell_ge :: "cell \<Rightarrow> cell \<Rightarrow> bool" where
  "cell_ge a b = cell_le b a"

text \<open>\<^verbatim>\<open>x * c\<close> for a float constant \<open>c\<close>: NaN stays NaN.\<close>

definition cell_mul :: "cell \<Rightarrow> real \<Rightarrow> cell" where
  "cell_mul a c = map_option (\<lambda>x. x * c) a"

definition and_then :: "'e + 'a \<Rightarrow> ('a \<Rightarrow> 'e + 'b) \<Rightarrow> 'e + 'b" where
  "and_then r f = (case r of Inl e \<Rightarrow> Inl e | Inr x \<Rightarrow> f x)"

text \<open>\<^verbatim>\<open>series.iloc[0]\<close> raises IndexError on a series without rows.\<close>

definition iloc0 :: "cell list \<Rightarrow> py_error + cell" where
  "iloc0 v = (case v of [] \<Rightarrow> Inl IndexError | x # _ \<Rightarrow> Inr x)"

text \<open>\<^verbatim>\<open>data[c].iloc[0]\<close>: KeyError when the frame has no column \<open>c\<close>.\<close>

definition column_iloc0 :: "frame \<Rightarrow> string \<Rightarrow> py_error + cell" where
  "column_iloc0 data c = (case map_of data c of None \<Rightarrow> Inl KeyError | Some v \<Rightarrow> iloc0 v)"

text \<open>\<^verbatim>\<open>data[c].iloc[0] if c in data else dflt\<close>: the test is on the column's presence.\<close>

definition column_or :: "frame \<Rightarrow> string \<Rightarrow> cell \<Rightarrow> py_error + cell" where
  "column_or data c dflt = (case map_of data c of None \<Rightarrow> Inr dflt | Some v \<Rightarrow> iloc0 v)"

text \<open>\<^verbatim>\<open>np.max\<close> raises ValueError on an empty array; \<^verbatim>\<open>np.mean\<close> of a list of ints.\<close>

definition np_max :: "real list \<Rightarrow> py_error + real" where
  "np_max p = (case p of [] \<Rightarrow> Inl ValueError | x # xs \<Rightarrow> Inr (fold max xs x))"

definition np_mean :: "int list \<Rightarrow> real" where
  "np_mean xs = real_of_int (sum_list xs) / real (length xs)"

text \<open>Rounding to the nearest integer, ties to the even one.\<close>

definition round_half_even :: "real \<Rightarrow> int" where
  "round_half_even x =
     (let f = \<lfloor>x\<rfloor>; r = x - real_of_int f
      in if r < 1 / 2 then f else if r > 1 / 2 then f + 1 else if even f then f else f + 1)"

text \<open>
  The double nearest to a real, ties to the even significand: a double with
  \<open>2 ^ e \<le> |x| < 2 ^ (e + 1)\<close> is a multiple of \<open>2 ^ (e - 52)\<close>. (The exponent is not
  bounded: overflow to an infinity and subnormal numbers are left out.) A decimal literal of
  the source denotes the double nearest to it, and an arithmetic operation on doubles
  returns the double nearest to the exact result.
\<close>

definition to_double :: "real \<Rightarrow> real" where
  "to_double x =
     (if x = 0 then 0
      else (let ulp = 2 powr (real_of_int \<lfloor>log 2 \<bar>x\<bar>\<rfloor> - 52)
            in real_of_int (round_half_even (x / ulp)) * ulp))"

section \<open>Signal fusion: \<^verbatim>\<open>StockPredictor.get_enhanced_signal\<close>\<close>

record indicators =
  i_rsi :: cell
  i_macd :: cell
  i_macd_signal :: cell
  i_sma_20 :: cell
  i_sma_50 :: cell
  i_bb_upper :: cell
  i_bb_lower :: cell

record details =
  d_indicators :: indicators
  d_ml_signal :: int
  d_technical_signal :: real
  d_combined_signal :: real

text \<open>The four rule-based sub-scores (lines 175 to 205), in the order they are appended.\<close>

definition rsi_score :: "cell \<Rightarrow> int" where
  "rsi_score rsi =
     (if cell_lt rsi (Some 30) then 1 else if cell_gt rsi (Some 70) then - 1 else 0)"

definition macd_score :: "cell \<Rightarrow> cell \<Rightarrow> int" where
  "macd_score macd macd_signal =
     (if cell_gt macd macd_signal \<and> cell_gt macd (Some 0) then 1
      else if cell_lt macd macd_signal \<and> cell_lt macd (Some 0) then - 1 else 0)"

definition ma_score :: "cell \<Rightarrow> cell \<Rightarrow> cell \<Rightarrow> int" where
  "ma_score current_price sma_20 sma_50 =
     (if cell_gt current_price sma_20 \<and> cell_gt sma_20 sma_50 then 1
      else if cell_lt current_price sma_20 \<and> cell_lt sma_20 sma_50 then - 1 else 0)"

definition bb_score :: "cell \<Rightarrow> cell \<Rightarrow> cell \<Rightarrow> int" where
  "bb_score current_price bb_lower bb_upper =
     (if cell_le current_price bb_lower then 1
      else if cell_ge current_price bb_upper then - 1 else 0)"

definition signal_scores_of :: "cell \<Rightarrow> indicators \<Rightarrow> int list" where
  "signal_scores_of current_price ind =
     [rsi_score (i_rsi ind),
      macd_score (i_macd ind) (i_macd_signal ind),
      ma_score current_price (i_sma_20 ind) (i_sma_50 ind),
      bb_score current_price (i_bb_lower ind) (i_bb_upper ind)]"

text \<open>Lines 161 to 170: the indicator values of the latest row, with their defaults.\<close>

definition extract_indicators :: "frame \<Rightarrow> py_error + (cell \<times> indicators)" where
  "extract_indicators latest_data =
     and_then (column_or latest_data ''RSI'' (Some 50)) (\<lambda>rsi.
     and_then (column_or latest_data ''MACD'' (Some 0)) (\<lambda>macd.
     and_then (column_or latest_data ''MACD_Signal'' (Some 0)) (\<lambda>macd_signal.
     and_then (column_iloc0 latest_data ''Close'') (\<lambda>current_price.
     and_then (column_or latest_data ''SMA_20'' current_price) (\<lambda>sma_20.
     and_then (column_or latest_data ''SMA_50'' current_price) (\<lambda>sma_50.
     and_then (column_or latest_data ''BB_Upper'' (cell_mul current_price 1.02)) (\<lambda>bb_upper.
     and_then (column_or latest_data ''BB_Lower'' (cell_mul current_price 0.98)) (\<lambda>bb_lower.
       Inr (current_price,
            \<lparr>i_rsi = rsi, i_macd = macd, i_macd_signal = macd_signal, i_sma_20 = sma_20,
             i_sma_50 = sma_50, i_bb_upper = bb_upper, i_bb_lower = bb_lower\<rparr>)))))))))"

text \<open>Lines 207 to 240: the weighted combination, the decision and the confidence.\<close>

definition fuse :: "int list \<Rightarrow> int \<Rightarrow> real list \<Rightarrow> indicators \<Rightarrow> py_error + (int \<times> real \<times> details option)" where
  "fuse signal_scores prediction prediction_proba ind =
     (let ml_signal = prediction;
          technical_signal = np_mean signal_scores;
          combined_signal = 0.6 * technical_signal + 0.4 * of_int ml_signal;
          final_signal = (if combined_signal \<ge> 0.5 then 1
                          else if combined_signal \<le> - 0.5 then - 1 else 0)
      in and_then (np_max prediction_proba) (\<lambda>ml_confidence.
         let technical_strength = \<bar>technical_signal\<bar>;
             agreement = (if technical_signal * of_int ml_signal \<ge> 0 then 1 else 0.5);
             confidence = ml_confidence * 0.5 + technical_strength * 0.3 + agreement * 0.2
         in Inr (final_signal, confidence,
                 Some \<lparr>d_indicators = ind, d_ml_signal = ml_signal,
                       d_technical_signal = technical_signal,
                       d_combined_signal = combined_signal\<rparr>)))"

text \<open>
  The whole method: the body runs under \<^verbatim>\<open>try\<close>; the handler returns the raw
  prediction with \<^verbatim>\<open>np.max(prediction_proba)\<close> and an empty breakdown, and an
  exception of the handler itself leaves the method.
\<close>

definition get_enhanced_signal :: "frame \<Rightarrow> int \<Rightarrow> real list \<Rightarrow> py_error + (int \<times> real \<times> details option)" where
  "get_enhanced_signal latest_data prediction prediction_proba =
     (case and_then (extract_indicators latest_data) (\<lambda>(current_price, ind).
             fuse (signal_scores_of current_price ind) prediction prediction_proba ind) of
        Inr r \<Rightarrow> Inr r
      | Inl e \<Rightarrow> and_then (np_max prediction_proba) (\<lambda>m. Inr (prediction, m, None)))"

section \<open>The libraries and the process environment\<close>

text \<open>
  Everything the engine calls outside this repository is a field of the environment:
  the market data source (\<^verbatim>\<open>yfinance\<close>; \<open>None\<close> when the call raises), the
  indicator library \<^verbatim>\<open>ta\<close> (one computation per assigned column, which may raise),
  scikit-learn's split and random forest, Python's string hash (string hashes are salted
  when a process starts, so \<open>py_hash\<close> is the hash of one process), numpy's global
  generator with its state \<open>g\<close> (\<open>np_seed n g\<close> is the state after
  \<^verbatim>\<open>np.random.seed(n)\<close>, \<open>np_normal g loc scale\<close> the draw of
  \<^verbatim>\<open>np.random.normal(loc, scale)\<close> in state \<open>g\<close> with the state it leaves,
  \<open>np_seed_none\<close> the state after \<^verbatim>\<open>np.random.seed(None)\<close>) and the clock:
  \<open>today k\<close> is the date \<^verbatim>\<open>datetime.now().strftime('%Y-%m-%d')\<close> returns when
  \<^verbatim>\<open>predict\<close> reads it in the loop round of day \<open>k\<close>, and \<open>today 0\<close> the one it
  returns at line 293, before the loop.
\<close>

record ('g, 'm) env =
  history :: "string \<Rightarrow> string \<Rightarrow> frame option"
  ta :: "string \<Rightarrow> frame \<Rightarrow> py_error + cell list"
  train_test_split :: "real list list \<Rightarrow> int list \<Rightarrow>
     py_error + ((real list list \<times> int list) \<times> (real list list \<times> int list))"
  rf_fit :: "real list list \<Rightarrow> int list \<Rightarrow> 'm"
  rf_predict :: "'m \<Rightarrow> real list \<Rightarrow> int"
  rf_predict_proba :: "'m \<Rightarrow> real list \<Rightarrow> real list"
  py_hash :: "string \<Rightarrow> int"
  np_seed :: "nat \<Rightarrow> 'g \<Rightarrow> 'g"
  np_seed_none :: "'g"
  np_normal :: "'g \<Rightarrow> real \<Rightarrow> real \<Rightarrow> real \<times> 'g"
  today :: "int \<Rightarrow> string"

section \<open>Indicators: \<^verbatim>\<open>calculate_technical_indicators\<close>\<close>

text \<open>
  The fourteen column assignments stand in one \<^verbatim>\<open>try\<close> block, in this order. The
  handler returns the frame as mutated so far: the first computation that raises ends the
  block, and no later column is assigned. (The constructors of the MACD and Bollinger
  objects belong to the computation of their first column.) An assigned series is aligned
  with the frame's rows.
\<close>

definition indicator_columns :: "string list" where
  "indicator_columns =
     [''RSI'', ''MACD'', ''MACD_Signal'', ''MACD_Hist'', ''BB_Upper'', ''BB_Lower'', ''BB_Middle'',
      ''SMA_20'', ''SMA_50'', ''EMA_12'', ''EMA_26'', ''Volume_SMA'', ''ROC'', ''Stoch'']"

definition n_rows :: "frame \<Rightarrow> nat" where
  "n_rows data = (case data of [] \<Rightarrow> 0 | (c, v) # _ \<Rightarrow> length v)"

definition align :: "nat \<Rightarrow> cell list \<Rightarrow> cell list" where
  "align n v = take n (v @ replicate (n - length v) None)"

fun assign_columns :: "(string \<Rightarrow> frame \<Rightarrow> py_error + cell list) \<Rightarrow> string list \<Rightarrow> frame \<Rightarrow> frame" where
  "assign_columns lib [] data = data"
| "assign_columns lib (c # cs) data =
     (case lib c data of
        Inl e \<Rightarrow> data
      | Inr v \<Rightarrow> assign_columns lib cs (AList.update c (align (n_rows data) v) data))"

definition calculate_technical_indicators ::
  "(string \<Rightarrow> frame \<Rightarrow> py_error + cell list) \<Rightarrow> frame \<Rightarrow> frame" where
  "calculate_technical_indicators lib data = assign_columns lib indicator_columns data"

section \<open>Labels: \<^verbatim>\<open>generate_labels\<close>\<close>

text \<open>
  \<^verbatim>\<open>Price_Change\<close> is a float subtraction followed by a float division by the close,
  each rounded to a double; a zero close gives an infinity or NaN. The comparisons with the
  thresholds, which are the doubles that the literals \<^verbatim>\<open>0.02\<close> and \<^verbatim>\<open>-0.02\<close>
  denote, are exact.
\<close>

datatype change = NaN | NegInf | Fin real | PosInf

definition shift_back :: "nat \<Rightarrow> cell list \<Rightarrow> cell list" where
  "shift_back k xs = drop k xs @ replicate (min k (length xs)) None"

fun price_change :: "cell \<Rightarrow> cell \<Rightarrow> change" where
  "price_change (Some future_price) (Some close) =
     (if close = 0
      then (if to_double (future_price - close) > 0 then PosInf
            else if to_double (future_price - close) < 0 then NegInf else NaN)
      else Fin (to_double (to_double (future_price - close) / close)))"
| "price_change _ _ = NaN"

fun change_gt :: "change \<Rightarrow> real \<Rightarrow> bool" where
  "change_gt (Fin x) t = (x > t)"
| "change_gt PosInf t = True"
| "change_gt _ t = False"

fun change_lt :: "change \<Rightarrow> real \<Rightarrow> bool" where
  "change_lt (Fin x) t = (x < t)"
| "change_lt NegInf t = True"
| "change_lt _ t = False"

text \<open>\<^verbatim>\<open>np.select(conditions, choices, default=0)\<close> on one row: the first true condition.\<close>

definition signal_class :: "change \<Rightarrow> int" where
  "signal_class c =
     (let buy_threshold = to_double 0.02; sell_threshold = - to_double 0.02
      in if change_gt c buy_threshold then 1 else if change_lt c sell_threshold then - 1 else 0)"

record labeled =
  l_data :: frame
  l_price_change :: "change list"
  l_signal :: "int list"

definition generate_labels :: "frame \<Rightarrow> nat \<Rightarrow> py_error + labeled" where
  "generate_labels data days_ahead =
     (case map_of data ''Close'' of
        None \<Rightarrow> Inl KeyError
      | Some close \<Rightarrow>
          (let future = shift_back days_ahead close;
               changes = map (\<lambda>(f, c). price_change f c) (zip future close)
           in Inr \<lparr>l_data = AList.update ''Future_Price'' future data,
                   l_price_change = changes,
                   l_signal = map signal_class changes\<rparr>))"

section \<open>Features and scaling: \<^verbatim>\<open>prepare_features\<close>, \<^verbatim>\<open>StandardScaler\<close>\<close>

definition feature_columns :: "string list" where
  "feature_columns =
     [''Open'', ''High'', ''Low'', ''Close'', ''Volume'',
      ''RSI'', ''MACD'', ''MACD_Signal'', ''MACD_Hist'',
      ''BB_Upper'', ''BB_Lower'', ''BB_Middle'',
      ''SMA_20'', ''SMA_50'', ''EMA_12'', ''EMA_26'',
      ''Volume_SMA'', ''ROC'', ''Stoch'']"

definition frame_cell :: "frame \<Rightarrow> string \<Rightarrow> nat \<Rightarrow> cell" where
  "frame_cell data c i =
     (case map_of data c of None \<Rightarrow> None | Some v \<Rightarrow> if i < length v then v ! i else None)"

text \<open>
  \<^verbatim>\<open>data[available_columns].dropna()\<close>: the rows without NaN, each with its index in
  the frame.
\<close>

definition dropna :: "frame \<Rightarrow> string list \<Rightarrow> (nat \<times> real list) list" where
  "dropna data cols =
     map (\<lambda>i. (i, map (\<lambda>c. the (frame_cell data c i)) cols))
       (filter (\<lambda>i. list_all (\<lambda>c. frame_cell data c i \<noteq> None) cols) [0..<n_rows data])"

definition prepare_features :: "frame \<Rightarrow> (nat \<times> real list) list \<times> string list" where
  "prepare_features data =
     (let available_columns = filter (\<lambda>col. map_of data col \<noteq> None) feature_columns
      in (dropna data available_columns, available_columns))"

text \<open>
  \<^verbatim>\<open>StandardScaler\<close>: \<^verbatim>\<open>fit\<close> stores the mean and the (population) variance of
  every feature over the rows it is given; \<^verbatim>\<open>transform\<close> subtracts the mean and
  divides by the standard deviation (by 1 where that is 0), and raises on a row of another
  width.
\<close>

record scaler =
  scaler_mean :: "real list"
  scaler_var :: "real list"

definition mean :: "real list \<Rightarrow> real" where
  "mean xs = sum_list xs / real (length xs)"

definition variance :: "real list \<Rightarrow> real" where
  "variance xs = mean (map (\<lambda>x. (x - mean xs) ^ 2) xs)"

definition feature :: "real list list \<Rightarrow> nat \<Rightarrow> real list" where
  "feature X j = map (\<lambda>row. row ! j) X"

definition scaler_fit :: "nat \<Rightarrow> real list list \<Rightarrow> scaler" where
  "scaler_fit n_features X =
     \<lparr>scaler_mean = map (\<lambda>j. mean (feature X j)) [0..<n_features],
      scaler_var = map (\<lambda>j. variance (feature X j)) [0..<n_features]\<rparr>"

definition scale_row :: "scaler \<Rightarrow> real list \<Rightarrow> real list" where
  "scale_row sc x =
     map (\<lambda>(x, m, v). (x - m) / (if sqrt v = 0 then 1 else sqrt v))
       (zip x (zip (scaler_mean sc) (scaler_var sc)))"

definition scaler_transform :: "scaler option \<Rightarrow> real list \<Rightarrow> py_error + real list" where
  "scaler_transform fitted x =
     (case fitted of
        None \<Rightarrow> Inl ValueError
      | Some sc \<Rightarrow> if length x \<noteq> length (scaler_mean sc) then Inl ValueError else Inr (scale_row sc x))"

section \<open>Trajectory simulation: lines 288 to 332 of \<^verbatim>\<open>StockPredictor.predict\<close>\<close>

record point =
  pt_day :: int
  pt_predicted_price :: cell
  pt_confidence :: real

text \<open>\<^verbatim>\<open>str(n)\<close> for the day index inside the f-string.\<close>

fun str_nat :: "nat \<Rightarrow> string" where
  "str_nat n =
     (if n < 10 then [char_of (48 + n)] else str_nat (n div 10) @ [char_of (48 + n mod 10)])"

definition str_int :: "int \<Rightarrow> string" where
  "str_int i = (if i < 0 then CHR ''-'' # str_nat (nat (- i)) else str_nat (nat i))"

text \<open>
  \<^verbatim>\<open>round(x, ndigits)\<close>: to the nearest multiple of \<open>10 ^ (- ndigits)\<close>, ties to the
  even one.
\<close>

definition py_round :: "real \<Rightarrow> nat \<Rightarrow> real" where
  "py_round x ndigits = real_of_int (round_half_even (x * 10 ^ ndigits)) / 10 ^ ndigits"

text \<open>Lines 296 to 305: drift and volatility by signal.\<close>

definition base_trend_volatility :: "int \<Rightarrow> real \<times> real" where
  "base_trend_volatility enhanced_signal =
     (if enhanced_signal = 1 then (0.008, 0.015)
      else if enhanced_signal = - 1 then (- 0.008, 0.015)
      else (0.001, 0.012))"

definition day_factor :: "int \<Rightarrow> real" where
  "day_factor day = sin (real_of_int day * 0.1) * 0.3 + 0.7"

text \<open>Line 314: the seed of one day, from the date read in that round.\<close>

definition random_seed :: "('g, 'm) env \<Rightarrow> string \<Rightarrow> string \<Rightarrow> int \<Rightarrow> nat" where
  "random_seed e symbol date day =
     nat (py_hash e (symbol @ ''_'' @ date @ ''_'' @ str_int day) mod 2 ^ 32)"

text \<open>Lines 322 and 323: the confidence of one day, before it is rounded for the output.\<close>

definition day_confidence :: "real \<Rightarrow> int \<Rightarrow> real" where
  "day_confidence enhanced_confidence day =
     max 0.45 (enhanced_confidence * (1 - (real_of_int day - 1) * 0.03))"

text \<open>
  The loop \<^verbatim>\<open>for day in range(1, days + 1)\<close>, entered at \<open>day\<close> with the running
  \<open>base_price\<close> and the generator in state \<open>g\<close>. Each round reads the clock
  (\<open>clock day\<close>), seeds the generator and draws once; the state the draw leaves goes to the
  next round.
\<close>

function forecast_loop ::
  "('g, 'm) env \<Rightarrow> string \<Rightarrow> (int \<Rightarrow> string) \<Rightarrow> real \<Rightarrow> real \<Rightarrow> real \<Rightarrow> int \<Rightarrow> int \<Rightarrow> cell \<Rightarrow> 'g
     \<Rightarrow> point list" where
  "forecast_loop e symbol clock base_trend volatility enhanced_confidence days day base_price g =
     (if days < day then []
      else
        (let trend_component = base_trend * day_factor day;
             g1 = np_seed e (random_seed e symbol (clock day) day) g;
             drawn = np_normal e g1 0 volatility;
             volatility_component = fst drawn;
             total_change = trend_component + volatility_component;
             base_price' = cell_mul base_price (1 + total_change);
             confidence = day_confidence enhanced_confidence day
         in \<lparr>pt_day = day,
             pt_predicted_price = map_option (\<lambda>x. py_round x 2) base_price',
             pt_confidence = py_round confidence 3\<rparr>
            # forecast_loop e symbol clock base_trend volatility enhanced_confidence days
                (day + 1) base_price' (snd drawn)))"
  by pat_completeness auto
termination
  by (relation "measure (\<lambda>(e, symbol, clock, base_trend, volatility, enhanced_confidence, days, day,
        base_price, g). nat (days + 1 - day))") auto

text \<open>
  The simulation as a whole, with the generator in state \<open>g\<close> at entry: line 294 seeds it
  from the date read before the loop, and the state at exit is the one
  \<^verbatim>\<open>np.random.seed(None)\<close> sets.
\<close>

definition forecast ::
  "('g, 'm) env \<Rightarrow> 'g \<Rightarrow> string \<Rightarrow> (int \<Rightarrow> string) \<Rightarrow> int \<Rightarrow> real \<Rightarrow> cell \<Rightarrow> int \<Rightarrow> point list \<times> 'g" where
  "forecast e g symbol clock enhanced_signal enhanced_confidence current_price days =
     (let g0 = np_seed e (nat (py_hash e (symbol @ ''_'' @ clock 0) mod 2 ^ 32)) g;
          (base_trend, volatility) = base_trend_volatility enhanced_signal
      in (forecast_loop e symbol clock base_trend volatility enhanced_confidence days 1
            current_price g0,
          np_seed_none e))"

section \<open>The predictor: \<^verbatim>\<open>train_model\<close> and \<^verbatim>\<open>predict\<close>\<close>

text \<open>
  The module creates one \<^verbatim>\<open>StockPredictor\<close> (\<^verbatim>\<open>predictor = StockPredictor()\<close>,
  line 364) and every request uses it. Its attributes are the state; a method returns the
  state it leaves. A fitted forest is whatever \<open>rf_fit\<close> returns.
\<close>

record 'm predictor =
  self_model :: "'m option"
  self_scaler :: "scaler option"
  self_is_trained :: bool
  self_feature_columns :: "string list option"

definition init_predictor :: "'m predictor" where
  "init_predictor =
     \<lparr>self_model = None, self_scaler = None, self_is_trained = False,
      self_feature_columns = None\<rparr>"

record metrics =
  train_accuracy :: real
  test_accuracy :: real
  data_points :: nat

datatype message =
    Failed_to_download_stock_data
  | Insufficient_data_for_training
  | Training_error py_error
  | Failed_to_download_recent_stock_data
  | Failed_to_prepare_features_for_prediction
  | Prediction_error py_error

record result =
  r_symbol :: string
  r_current_price :: cell
  r_signal :: int
  r_signal_confidence :: real
  r_predictions :: "point list"
  r_technical_indicators :: "(string \<times> cell) list"

definition download_stock_data :: "('g, 'm) env \<Rightarrow> string \<Rightarrow> string \<Rightarrow> frame option" where
  "download_stock_data e symbol period = history e symbol period"

definition frame_empty :: "frame \<Rightarrow> bool" where
  "frame_empty data = (n_rows data = 0)"

text \<open>\<^verbatim>\<open>model.score(X, y)\<close>: the share of rows predicted as labelled.\<close>

definition score :: "('g, 'm) env \<Rightarrow> 'm \<Rightarrow> real list list \<Rightarrow> int list \<Rightarrow> real" where
  "score e m X y =
     real (length (filter (\<lambda>(x, l). rf_predict e m x = l) (zip X y))) / real (length y)"

text \<open>
  \<^verbatim>\<open>train_model\<close>, lines 106 to 157. The scaler is fitted by
  \<^verbatim>\<open>self.scaler.fit_transform(X)\<close> on all rows of \<open>X\<close> (line 128), before
  \<^verbatim>\<open>train_test_split\<close> (line 131) divides the scaled rows. Attributes assigned before a
  failure stay assigned.
\<close>

definition train_model :: "('g, 'm) env \<Rightarrow> 'm predictor \<Rightarrow> string \<Rightarrow> 'm predictor \<times> (message + metrics)" where
  "train_model e self symbol =
     (case download_stock_data e symbol ''2y'' of
        None \<Rightarrow> (self, Inl Failed_to_download_stock_data)
      | Some data0 \<Rightarrow>
          if frame_empty data0 then (self, Inl Failed_to_download_stock_data)
          else
            (case generate_labels (calculate_technical_indicators (ta e) data0) 1 of
               Inl err \<Rightarrow> (self, Inl (Training_error err))
             | Inr data \<Rightarrow>
                 (let (X, cols) = prepare_features (l_data data);
                      self1 = self\<lparr>self_feature_columns := Some cols\<rparr>;
                      y = map (\<lambda>(i, row). l_signal data ! i) X
                  in if length X < 50 then (self1, Inl Insufficient_data_for_training)
                     else
                       (let fitted = scaler_fit (length cols) (map snd X);
                            self2 = self1\<lparr>self_scaler := Some fitted\<rparr>;
                            X_scaled = map (\<lambda>(i, row). scale_row fitted row) X
                        in case train_test_split e X_scaled y of
                             Inl err \<Rightarrow> (self2, Inl (Training_error err))
                           | Inr ((X_train, y_train), (X_test, y_test)) \<Rightarrow>
                               (let m = rf_fit e X_train y_train
                                in (self2\<lparr>self_model := Some m, self_is_trained := True\<rparr>,
                                    Inr \<lparr>train_accuracy = score e m X_train y_train,
                                         test_accuracy = score e m X_test y_test,
                                         data_points = length X\<rparr>))))))"

text \<open>\<^verbatim>\<open>data.tail(1)\<close>.\<close>

definition tail1 :: "frame \<Rightarrow> frame" where
  "tail1 data = map (\<lambda>(c, v). (c, if v = [] then [] else [last v])) data"

text \<open>
  Lines 334 to 346: the indicator values reported with the result (the constant
  \<^verbatim>\<open>source\<close> entry is left out, as is the wall-clock \<^verbatim>\<open>timestamp\<close> of the result).
\<close>

definition current_indicators :: "frame \<Rightarrow> cell \<Rightarrow> (string \<times> cell) list" where
  "current_indicators latest_data current_price =
     concat (map (\<lambda>(k, c). case map_of latest_data c of None \<Rightarrow> [] | Some v \<Rightarrow> [(k, hd v)])
       [(''rsi'', ''RSI''), (''macd'', ''MACD''), (''macd_signal'', ''MACD_Signal''),
        (''sma_20'', ''SMA_20''), (''sma_50'', ''SMA_50'')])
     @ [(''current_price'', map_option (\<lambda>x. py_round x 2) current_price)]"

text \<open>
  \<^verbatim>\<open>predict\<close> from line 257 on: the predictor is only read. \<open>g\<close> is the state of
  numpy's global generator. \<^verbatim>\<open>X.empty\<close> holds for a frame without rows or without
  columns.
\<close>

definition predict_with :: "('g, 'm) env \<Rightarrow> 'g \<Rightarrow> 'm predictor \<Rightarrow> string \<Rightarrow> int \<Rightarrow> 'g \<times> (message + result)" where
  "predict_with e g self symbol days =
     (case download_stock_data e symbol ''6mo'' of
        None \<Rightarrow> (g, Inl Failed_to_download_recent_stock_data)
      | Some data0 \<Rightarrow>
          if frame_empty data0 then (g, Inl Failed_to_download_recent_stock_data)
          else
            (let data = calculate_technical_indicators (ta e) data0;
                 latest_data = tail1 data;
                 (X, cols) = prepare_features latest_data
             in if X = [] \<or> cols = [] then (g, Inl Failed_to_prepare_features_for_prediction)
                else
                  (case scaler_transform (self_scaler self) (snd (hd X)) of
                     Inl err \<Rightarrow> (g, Inl (Prediction_error err))
                   | Inr X_scaled \<Rightarrow>
                       (case self_model self of
                          None \<Rightarrow> (g, Inl (Prediction_error AttributeError))
                        | Some m \<Rightarrow>
                            (let prediction = rf_predict e m X_scaled;
                                 prediction_proba = rf_predict_proba e m X_scaled
                             in case get_enhanced_signal latest_data prediction prediction_proba of
                                  Inl err \<Rightarrow> (g, Inl (Prediction_error err))
                                | Inr (enhanced_signal, enhanced_confidence, signal_details) \<Rightarrow>
                                    (case column_iloc0 latest_data ''Close'' of
                                       Inl err \<Rightarrow> (g, Inl (Prediction_error err))
                                     | Inr current_price \<Rightarrow>
                                         (let (predictions, g') =
                                                forecast e g symbol (today e) enhanced_signal
                                                  enhanced_confidence current_price days
                                          in (g',
                                              Inr \<lparr>r_symbol = symbol,
                                                   r_current_price =
                                                     map_option (\<lambda>x. py_round x 2) current_price,
                                                   r_signal = enhanced_signal,
                                                   r_signal_confidence =
                                                     py_round enhanced_confidence 3,
                                                   r_predictions = predictions,
                                                   r_technical_indicators =
                                                     current_indicators latest_data
                                                       current_price\<rparr>))))))))"

text \<open>
  \<^verbatim>\<open>predict\<close>, lines 246 to 361: the guard of line 250 reads the one flag
  \<^verbatim>\<open>self.is_trained\<close>; the symbol of the request is not compared with anything.
\<close>

definition predict :: "('g, 'm) env \<Rightarrow> 'g \<Rightarrow> 'm predictor \<Rightarrow> string \<Rightarrow> int \<Rightarrow> 'g \<times> 'm predictor \<times> (message + result)" where
  "predict e g self symbol days =
     (if \<not> self_is_trained self
      then (case train_model e self symbol of
              (self', Inl msg) \<Rightarrow> (g, self', Inl msg)
            | (self', Inr accuracy) \<Rightarrow>
                (case predict_with e g self' symbol days of (g', r) \<Rightarrow> (g', self', r)))
      else (case predict_with e g self symbol days of (g', r) \<Rightarrow> (g', self, r)))"

section \<open>Example inputs\<close>

text \<open>
  A small environment to run the model on: flat price bars for two symbols and bars with
  one heavier trading day for a third, an indicator library whose first computation
  raises, a split that takes the first rows for training (\<open>ceil (0.2 * n)\<close> rows are
  held out, as scikit-learn counts them), a forest that remembers its training rows and
  always answers Hold, simple arithmetic for the hash and the generator (whose seeding
  forgets the earlier state, as numpy's does), and a clock that stays on one date. None of
  the general theorems below depends on it.
\<close>

definition flat_bars :: "real \<Rightarrow> nat \<Rightarrow> frame" where
  "flat_bars c n =
     [(''Open'', replicate n (Some c)), (''High'', replicate n (Some c)),
      (''Low'', replicate n (Some c)), (''Close'', replicate n (Some c)),
      (''Volume'', replicate n (Some 1))]"

definition busy_first_day :: frame where
  "busy_first_day = AList.update ''Volume'' (Some 2 # replicate 59 (Some 1)) (flat_bars 1 60)"

definition first_rows_split ::
  "real list list \<Rightarrow> int list \<Rightarrow> py_error + ((real list list \<times> int list) \<times> (real list list \<times> int list))" where
  "first_rows_split X y =
     (let n_train = length X - (length X + 4) div 5
      in Inr ((take n_train X, take n_train y), (drop n_train X, drop n_train y)))"

definition demo_env :: "(nat, real list list \<times> int list) env" where
  "demo_env =
     \<lparr>history = (\<lambda>symbol period.
         if symbol = ''AAA'' then Some (flat_bars 1 60)
         else if symbol = ''BBB'' then Some (flat_bars 2 60)
         else if symbol = ''CCC'' then Some busy_first_day
         else None),
      ta = (\<lambda>c data. Inl ValueError),
      train_test_split = first_rows_split,
      rf_fit = (\<lambda>X y. (X, y)),
      rf_predict = (\<lambda>m x. 0),
      rf_predict_proba = (\<lambda>m x. [0, 1, 0]),
      py_hash = (\<lambda>s. int (sum_list (map of_char s))),
      np_seed = (\<lambda>n g. n),
      np_seed_none = 0,
      np_normal = (\<lambda>g loc scale. (loc + scale * (real (g mod 5) - 2) / 2, g + 1)),
      today = (\<lambda>k. ''2024-01-02'')\<rparr>"

text \<open>
  An indicator library that reads its input: a computation raises \<^verbatim>\<open>KeyError\<close> when a
  column it reads is missing from the frame (lines 39 to 65: \<^verbatim>\<open>Volume\<close> for the volume
  average, \<^verbatim>\<open>High\<close>, \<^verbatim>\<open>Low\<close> and \<^verbatim>\<open>Close\<close> for the stochastic oscillator,
  \<^verbatim>\<open>Close\<close> for every other indicator) and returns a series otherwise. Bars that came
  without a volume column.
\<close>

definition source_columns :: "string \<Rightarrow> string list" where
  "source_columns c =
     (if c = ''Volume_SMA'' then [''Volume'']
      else if c = ''Stoch'' then [''High'', ''Low'', ''Close'']
      else [''Close''])"

definition column_reader :: "string \<Rightarrow> frame \<Rightarrow> py_error + cell list" where
  "column_reader c data =
     (if list_all (\<lambda>k. map_of data k \<noteq> None) (source_columns c)
      then Inr (replicate (n_rows data) (Some 1)) else Inl KeyError)"

definition bars_without_volume :: frame where
  "bars_without_volume =
     [(''Open'', [Some 1, Some 1, Some 1]), (''High'', [Some 1, Some 1, Some 1]),
      (''Low'', [Some 1, Some 1, Some 1]), (''Close'', [Some 1, Some 1, Some 1])]"

text \<open>
  Closes whose day-to-day changes compute to exactly the double \<^verbatim>\<open>0.02\<close>, to about
  -0.0196, to exactly the double \<^verbatim>\<open>-0.02\<close>, to 1 and to -0.5.
\<close>

definition boundary_bars :: frame where
  "boundary_bars = [(''Close'', [Some 50, Some 51, Some 50, Some 49, Some 98, Some 49])]"

text \<open>
  Two closes, 51 and the double \<^verbatim>\<open>49.98\<close>: a fall of two percent in decimal arithmetic.
\<close>

definition decimal_bars :: frame where
  "decimal_bars = [(''Close'', [Some 51, Some (to_double 49.98)])]"



definition neutral_indicators :: indicators where
  "neutral_indicators =
     \<lparr>i_rsi = Some 50, i_macd = Some 0, i_macd_signal = Some 0, i_sma_20 = Some 100,
      i_sma_50 = Some 100, i_bb_upper = Some 102, i_bb_lower = Some 98\<rparr>"


section \<open>Properties of signal fusion\<close>

lemma np_max_Max: "p \<noteq> [] \<Longrightarrow> np_max p = Inr (Max (set p))"
proof (cases p)
  case Nil
  assume "p \<noteq> []"
  with Nil show ?thesis by simp
next
  case (Cons x xs)
  then show ?thesis
    using Max.set_eq_fold [of x xs] by (simp add: np_max_def)
qed

lemma np_mean4: "np_mean [s1, s2, s3, s4] = real_of_int (s1 + s2 + s3 + s4) / 4"
  by (simp add: np_mean_def)

text \<open>
  With sub-scores and a prediction in \<open>{-1, 0, 1}\<close> the combined signal never comes
  closer than 0.05 to a threshold, so the decision below does not depend on the rounding
  of the float arithmetic.
\<close>

lemma combined_signal_margin:
  assumes "s1 \<in> {- 1, 0, 1}" "s2 \<in> {- 1, 0, 1}" "s3 \<in> {- 1, 0, 1}" "s4 \<in> {- 1, 0, 1}" "m \<in> {- 1, 0, 1::int}"
  shows "\<bar>0.6 * (real_of_int (s1 + s2 + s3 + s4) / 4) + 0.4 * real_of_int m - 0.5\<bar> \<ge> 0.05"
    and "\<bar>0.6 * (real_of_int (s1 + s2 + s3 + s4) / 4) + 0.4 * real_of_int m + 0.5\<bar> \<ge> 0.05"
  using assms by auto

text \<open>
  C1. For every four sub-scores and every classifier prediction, fusion returns the mean
  of the sub-scores as \<open>technical_signal\<close>, \<open>0.6 * technical_signal + 0.4 * ml_signal\<close>
  as \<open>combined_signal\<close>, and the final signal 1 exactly when the combined signal is at
  least 0.5, -1 exactly when it is at most -0.5, and 0 exactly otherwise. (The statement
  holds for all integers, so in particular for sub-scores and predictions in
  \<open>{-1, 0, 1}\<close>; the probability vector must not be empty, or \<^verbatim>\<open>np.max\<close> raises.)
\<close>

theorem fusion_decision:
  assumes "prediction_proba \<noteq> []"
  shows "\<exists>final conf d. fuse [s1, s2, s3, s4] m prediction_proba ind = Inr (final, conf, Some d)
     \<and> d_ml_signal d = m
     \<and> d_technical_signal d = real_of_int (s1 + s2 + s3 + s4) / 4
     \<and> d_combined_signal d = 0.6 * d_technical_signal d + 0.4 * real_of_int m
     \<and> (final = 1 \<longleftrightarrow> d_combined_signal d \<ge> 0.5)
     \<and> (final = - 1 \<longleftrightarrow> d_combined_signal d \<le> - 0.5)
     \<and> (final = 0 \<longleftrightarrow> \<not> d_combined_signal d \<ge> 0.5 \<and> \<not> d_combined_signal d \<le> - 0.5)"
proof -
  define t where "t = real_of_int (s1 + s2 + s3 + s4) / 4"
  define c where "c = 0.6 * t + 0.4 * real_of_int m"
  define final :: int where "final = (if c \<ge> 0.5 then 1 else if c \<le> - 0.5 then - 1 else 0)"
  define conf where "conf = Max (set prediction_proba) * 0.5 + \<bar>t\<bar> * 0.3
      + (if t * real_of_int m \<ge> 0 then 1 else 0.5) * 0.2"
  define d where "d = \<lparr>d_indicators = ind, d_ml_signal = m, d_technical_signal = t,
      d_combined_signal = c\<rparr>"
  have "fuse [s1, s2, s3, s4] m prediction_proba ind = Inr (final, conf, Some d)"
    unfolding fuse_def Let_def and_then_def np_max_Max [OF assms] np_mean4
      final_def conf_def d_def c_def t_def
    by simp
  moreover have "d_ml_signal d = m" "d_technical_signal d = real_of_int (s1 + s2 + s3 + s4) / 4"
    "d_combined_signal d = 0.6 * d_technical_signal d + 0.4 * real_of_int m"
    by (simp_all add: d_def c_def t_def)
  moreover have "final = 1 \<longleftrightarrow> c \<ge> 0.5" "final = - 1 \<longleftrightarrow> c \<le> - 0.5"
    "final = 0 \<longleftrightarrow> \<not> c \<ge> 0.5 \<and> \<not> c \<le> - 0.5"
    by (auto simp: final_def)
  moreover have "d_combined_signal d = c"
    by (simp add: d_def)
  ultimately show ?thesis
    by metis
qed

theorem fusion_decision_witness:
  "[0.1, 0.2, 0.7] \<noteq> ([]::real list) \<and>
   fuse [1, 0, 1, 0] 1 [0.1, 0.2, 0.7] neutral_indicators =
     Inr (1, 0.7, Some \<lparr>d_indicators = neutral_indicators, d_ml_signal = 1,
                        d_technical_signal = 0.5, d_combined_signal = 0.7\<rparr>)"
  using fusion_decision [of "[0.1, 0.2, 0.7]" 1 0 1 0 1 neutral_indicators]
  by (simp add: fuse_def Let_def and_then_def np_max_def np_mean_def)

text \<open>
  C3. For every non-empty probability vector \<open>p\<close>, every list of sub-scores with mean
  \<open>t\<close> and every prediction \<open>m\<close>, the fused confidence is
  \<open>0.5 * max p + 0.3 * |t| + 0.2 * b\<close> with \<open>b = 1\<close> if \<open>t * m \<ge> 0\<close> and \<open>b = 0.5\<close>
  otherwise; with four sub-scores 1 (\<open>t = 1\<close>), \<open>m = 1\<close> and \<open>max p = 0.9\<close> it is 0.95.
\<close>

theorem fused_confidence:
  assumes "p \<noteq> []"
  shows "(\<exists>final d. fuse signal_scores m p ind =
            Inr (final,
                 0.5 * Max (set p) + 0.3 * \<bar>np_mean signal_scores\<bar>
                   + 0.2 * (if np_mean signal_scores * real_of_int m \<ge> 0 then 1 else 0.5),
                 Some d)
            \<and> d_technical_signal d = np_mean signal_scores \<and> d_ml_signal d = m)
       \<and> (\<exists>final d. fuse [1, 1, 1, 1] 1 [0.9, 0.06, 0.04] ind = Inr (final, 0.95, Some d)
            \<and> d_technical_signal d = 1 \<and> d_ml_signal d = 1
            \<and> Max (set [0.9, 0.06, 0.04::real]) = 0.9)"
  using assms by (simp add: fuse_def Let_def and_then_def np_max_Max np_mean_def)


theorem fused_confidence_witness:
  "[0.9, 0.06, 0.04] \<noteq> ([]::real list) \<and>
   fuse [1, 1, 1, 1] 1 [0.9, 0.06, 0.04] neutral_indicators =
     Inr (1, 0.95, Some \<lparr>d_indicators = neutral_indicators, d_ml_signal = 1,
                         d_technical_signal = 1, d_combined_signal = 1\<rparr>)"
  using fused_confidence [of "[0.9, 0.06, 0.04]" "[1, 1, 1, 1]" 1 neutral_indicators]
  by (simp add: fuse_def Let_def and_then_def np_max_def np_mean_def)

lemma column_or_Inr:
  assumes "list_all (\<lambda>(c, v). v \<noteq> []) data"
  shows "column_or data c dflt = Inr (case map_of data c of None \<Rightarrow> dflt | Some v \<Rightarrow> hd v)"
proof (cases "map_of data c")
  case None
  then show ?thesis by (simp add: column_or_def)
next
  case (Some v)
  then have "(c, v) \<in> set data" by (rule map_of_SomeD)
  with assms have "v \<noteq> []" by (auto simp: list_all_iff)
  with Some show ?thesis by (cases v) (simp_all add: column_or_def iloc0_def)
qed

lemma extract_indicators_Inr:
  assumes "list_all (\<lambda>(c, v). v \<noteq> []) latest_data"
    and "map_of latest_data ''Close'' = Some (price # rest)"
  shows "extract_indicators latest_data = Inr (price,
     \<lparr>i_rsi = (case map_of latest_data ''RSI'' of None \<Rightarrow> Some 50 | Some v \<Rightarrow> hd v),
      i_macd = (case map_of latest_data ''MACD'' of None \<Rightarrow> Some 0 | Some v \<Rightarrow> hd v),
      i_macd_signal = (case map_of latest_data ''MACD_Signal'' of None \<Rightarrow> Some 0 | Some v \<Rightarrow> hd v),
      i_sma_20 = (case map_of latest_data ''SMA_20'' of None \<Rightarrow> price | Some v \<Rightarrow> hd v),
      i_sma_50 = (case map_of latest_data ''SMA_50'' of None \<Rightarrow> price | Some v \<Rightarrow> hd v),
      i_bb_upper = (case map_of latest_data ''BB_Upper'' of None \<Rightarrow> cell_mul price 1.02 | Some v \<Rightarrow> hd v),
      i_bb_lower = (case map_of latest_data ''BB_Lower'' of None \<Rightarrow> cell_mul price 0.98 | Some v \<Rightarrow> hd v)\<rparr>)"
  unfolding extract_indicators_def column_or_Inr [OF assms(1)]
  by (simp add: and_then_def column_iloc0_def iloc0_def assms(2))

lemma fuse_Inr:
  assumes "p \<noteq> []"
  shows "\<exists>final conf t c. fuse scores m p ind =
     Inr (final, conf, Some \<lparr>d_indicators = ind, d_ml_signal = m, d_technical_signal = t,
                             d_combined_signal = c\<rparr>)"
  by (simp add: fuse_def Let_def and_then_def np_max_Max [OF assms])

text \<open>
  Inside \<^verbatim>\<open>predict\<close> a latest row with NaN in a present indicator column does not
  reach fusion: the seven indicators fusion reads are feature columns, and
  \<^verbatim>\<open>prepare_features\<close> leaves no row when a present feature column holds NaN.
\<close>

lemma no_nan_reaches_fusion:
  assumes "fst (prepare_features latest_data) \<noteq> []" and "n_rows latest_data = 1"
    and "c \<in> set feature_columns" and "map_of latest_data c = Some v"
  shows "\<exists>x. frame_cell latest_data c 0 = Some x"
proof -
  let ?cols = "filter (\<lambda>col. map_of latest_data col \<noteq> None) feature_columns"
  from assms(1,2) have "list_all (\<lambda>c. frame_cell latest_data c 0 \<noteq> None) ?cols"
    by (simp add: prepare_features_def dropna_def Let_def split: if_splits)
  moreover from assms(3,4) have "c \<in> set ?cols" by simp
  ultimately show ?thesis by (auto simp: list_all_iff)
qed




section \<open>Properties of the trajectory simulation\<close>

declare forecast_loop.simps [simp del]










lemma fst_forecast:
  "fst (forecast e g symbol clock signal conf price days) =
     forecast_loop e symbol clock (fst (base_trend_volatility signal))
       (snd (base_trend_volatility signal)) conf days 1 price
       (np_seed e (nat (py_hash e (symbol @ ''_'' @ clock 0) mod 2 ^ 32)) g)"
  by (simp add: forecast_def Let_def split_beta)








text \<open>
  Without the same hash the runs differ: in a process whose hash is the example hash plus
  one, the first predicted price for the same symbol and date is another.
\<close>

lemma py_round_near: "\<bar>py_round x n - x\<bar> \<le> 1 / (2 * 10 ^ n)"
proof -
  have h: "\<bar>real_of_int (round_half_even y) - y\<bar> \<le> 1 / 2" for y
    by (auto simp: round_half_even_def Let_def)
  have "py_round x n - x = (real_of_int (round_half_even (x * 10 ^ n)) - x * 10 ^ n) / 10 ^ n"
    by (simp add: py_round_def field_simps)
  then have "\<bar>py_round x n - x\<bar> =
      \<bar>real_of_int (round_half_even (x * 10 ^ n)) - x * 10 ^ n\<bar> / 10 ^ n"
    by (simp only: abs_divide) simp
  also have "\<dots> \<le> (1 / 2) / 10 ^ n"
    by (intro divide_right_mono h) simp
  finally show ?thesis by simp
qed

lemma other_hash_other_sequence:
  "map pt_predicted_price
     (fst (forecast (demo_env\<lparr>py_hash := \<lambda>s. py_hash demo_env s + 1\<rparr>) 0 ''AAA''
        (\<lambda>k. ''2024-01-02'') 1 0.9 (Some 100) 1)) \<noteq>
   map pt_predicted_price
     (fst (forecast demo_env 0 ''AAA'' (\<lambda>k. ''2024-01-02'') 1 0.9 (Some 100) 1))"
proof -
  let ?salted = "demo_env\<lparr>py_hash := \<lambda>s. py_hash demo_env s + 1\<rparr>"
  define t where "t = 0.008 * day_factor 1"
  have seed: "random_seed demo_env ''AAA'' ''2024-01-02'' 1 = 919"
    "random_seed ?salted ''AAA'' ''2024-01-02'' 1 = 920"
    by (simp_all add: random_seed_def demo_env_def str_int_def)
  have gen: "np_seed demo_env = (\<lambda>n g. n)"
    "np_normal demo_env = (\<lambda>g loc scale. (loc + scale * (real (g mod 5) - 2) / 2, g + 1))"
    by (simp_all add: demo_env_def)
  have a: "map pt_predicted_price
       (fst (forecast demo_env 0 ''AAA'' (\<lambda>k. ''2024-01-02'') 1 0.9 (Some 100) 1)) =
     [Some (py_round (100 * (1 + (t + 0.015))) 2)]"
    by (simp add: fst_forecast base_trend_volatility_def
        forecast_loop.simps [of _ _ _ _ _ _ 1 1] forecast_loop.simps [of _ _ _ _ _ _ 1 2]
        Let_def seed gen cell_mul_def t_def)
  have b: "map pt_predicted_price
       (fst (forecast ?salted 0 ''AAA'' (\<lambda>k. ''2024-01-02'') 1 0.9 (Some 100) 1)) =
     [Some (py_round (100 * (1 + (t - 0.015))) 2)]"
    by (simp add: fst_forecast base_trend_volatility_def
        forecast_loop.simps [of _ _ _ _ _ _ 1 1] forecast_loop.simps [of _ _ _ _ _ _ 1 2]
        Let_def seed gen cell_mul_def t_def)
  define lo where "lo = 100 * (1 + (t - 0.015))"
  define hi where "hi = 100 * (1 + (t + 0.015))"
  have "\<bar>py_round lo 2 - lo\<bar> \<le> 1 / 200" "\<bar>py_round hi 2 - hi\<bar> \<le> 1 / 200"
    using py_round_near [of lo 2] py_round_near [of hi 2] by simp_all
  then have "py_round lo 2 \<le> lo + 1 / 200" "hi - 1 / 200 \<le> py_round hi 2"
    by linarith+
  moreover have "hi = lo + 3"
    by (simp add: lo_def hi_def)
  ultimately have "py_round lo 2 < py_round hi 2"
    by linarith
  then have "py_round (100 * (1 + (t - 0.015))) 2 < py_round (100 * (1 + (t + 0.015))) 2"
    unfolding lo_def hi_def .
  then show ?thesis
    unfolding a b by simp
qed

lemma py_round_zero: "py_round 0 n = 0"
  by (simp add: py_round_def round_half_even_def)

text \<open>With a starting price of 0 every predicted price is 0, on every date.\<close>

lemma forecast_loop_zero_price:
  "map pt_predicted_price (forecast_loop e symbol clock bt vol conf days day (Some 0) g) =
   replicate (nat (days + 1 - day)) (Some 0)"
proof (induction e symbol clock bt vol conf days day "Some (0::real)" g rule: forecast_loop.induct)
  case (1 e symbol clock bt vol conf days day g)
  show ?case
  proof (cases "days < day")
    case True
    then show ?thesis
      by (simp add: forecast_loop.simps [of e symbol clock bt vol conf days day _ g])
  next
    case False
    then have s: "nat (days + 1 - day) = Suc (nat (days + 1 - (day + 1)))" by simp
    from False "1.hyps" show ?thesis
      unfolding s
      by (simp add: forecast_loop.simps [of e symbol clock bt vol conf days day "Some 0" g]
          Let_def cell_mul_def py_round_zero)
  qed
qed






section \<open>Properties of the labels\<close>

text \<open>
  The double nearest to \<open>x\<close>, computed from the position \<open>k\<close> of \<open>x\<close> among the powers
  of two: for \<open>2 ^ 52 \<le> |x| * 2 ^ k < 2 ^ 53\<close> it is the multiple of \<open>2 ^ (- k)\<close>
  nearest to \<open>x\<close>.
\<close>

lemma to_double_scaled:
  assumes "2 ^ 52 \<le> \<bar>x\<bar> * 2 ^ k" and "\<bar>x\<bar> * 2 ^ k < 2 ^ 53"
  shows "to_double x = real_of_int (round_half_even (x * 2 ^ k)) / 2 ^ k"
proof -
  have pos: "0 < \<bar>x\<bar>"
  proof (rule ccontr)
    assume "\<not> 0 < \<bar>x\<bar>"
    then have "\<bar>x\<bar> * 2 ^ k = 0" by simp
    with assms(1) show False by simp
  qed
  then have nz: "x \<noteq> 0" by simp
  define e :: int where "e = 52 - int k"
  have p: "2 powr real_of_int e = 2 ^ 52 / 2 ^ k"
    unfolding e_def by (simp add: powr_diff powr_realpow)
  have p1: "2 powr (real_of_int e + 1) = 2 ^ 53 / 2 ^ k"
    unfolding e_def by (simp add: powr_diff powr_add powr_realpow)
  have "2 powr real_of_int e \<le> \<bar>x\<bar>"
    unfolding p using assms(1) by (simp add: field_simps)
  then have lo: "real_of_int e \<le> log 2 \<bar>x\<bar>"
    using pos by (simp add: le_log_iff)
  have "\<bar>x\<bar> < 2 powr (real_of_int e + 1)"
    unfolding p1 using assms(2) by (simp add: field_simps)
  then have hi: "log 2 \<bar>x\<bar> < real_of_int e + 1"
    using pos by (simp add: log_less_iff)
  from lo hi have fl: "\<lfloor>log 2 \<bar>x\<bar>\<rfloor> = e"
    by (simp add: floor_eq_iff)
  have ulp: "2 powr (real_of_int e - 52) = 1 / 2 ^ k"
    unfolding e_def by (simp add: powr_minus_divide powr_realpow)
  show ?thesis
    unfolding to_double_def Let_def fl ulp using nz by simp
qed

lemma round_half_even_of_int: "round_half_even (real_of_int n) = n"
  by (simp add: round_half_even_def)

text \<open>The doubles of the example: small integers and \<open>-1/2\<close> are doubles themselves.\<close>

lemma to_double_exact:
  "to_double 1 = 1" "to_double (- 1) = - 1" "to_double 49 = 49" "to_double (- 49) = - 49"
  "to_double (- (1 / 2)) = - (1 / 2)"
proof -
  have "round_half_even (1 * 2 ^ 52) = 2 ^ 52"
    using round_half_even_of_int [of "2 ^ 52"] by simp
  then show "to_double 1 = 1"
    by (simp add: to_double_scaled [of 1 52])
  have "round_half_even (- 1 * 2 ^ 52) = - (2 ^ 52)"
    using round_half_even_of_int [of "- (2 ^ 52)"] by simp
  then show "to_double (- 1) = - 1"
    by (simp add: to_double_scaled [of "- 1" 52])
  have "round_half_even (49 * 2 ^ 47) = 49 * 2 ^ 47"
    using round_half_even_of_int [of "49 * 2 ^ 47"] by simp
  then show "to_double 49 = 49"
    by (simp add: to_double_scaled [of 49 47])
  have "round_half_even (- 49 * 2 ^ 47) = - (49 * 2 ^ 47)"
    using round_half_even_of_int [of "- (49 * 2 ^ 47)"] by simp
  then show "to_double (- 49) = - 49"
    by (simp add: to_double_scaled [of "- 49" 47])
  have "round_half_even (- (1 / 2) * 2 ^ 53) = - (2 ^ 52)"
    using round_half_even_of_int [of "- (2 ^ 52)"] by simp
  then show "to_double (- (1 / 2)) = - (1 / 2)"
    by (simp add: to_double_scaled [of "- (1 / 2)" 53])
qed

text \<open>
  The double that the literal \<^verbatim>\<open>0.02\<close> denotes, which is also the double a division
  with the exact result 1/50 returns; the literal \<^verbatim>\<open>-0.02\<close> is its negative.
\<close>

lemma to_double_fiftieth:
  "to_double (1 / 50) = 5764607523034235 / 2 ^ 58"
  "to_double (- (1 / 50)) = - (5764607523034235 / 2 ^ 58)"
proof -
  have "round_half_even (1 / 50 * 2 ^ 58) = 5764607523034235"
    by (simp add: round_half_even_def)
  then show "to_double (1 / 50) = 5764607523034235 / 2 ^ 58"
    by (simp add: to_double_scaled [of "1 / 50" 58])
  have "round_half_even (- (1 / 50) * 2 ^ 58) = - 5764607523034235"
    by (simp add: round_half_even_def)
  then show "to_double (- (1 / 50)) = - (5764607523034235 / 2 ^ 58)"
    by (simp add: to_double_scaled [of "- (1 / 50)" 58])
qed

lemma to_double_fifty_first:
  "to_double (- (1 / 51)) = - (5651576002974740 / 2 ^ 58)"
proof -
  have "round_half_even (- (1 / 51) * 2 ^ 58) = - 5651576002974740"
    by (simp add: round_half_even_def)
  then show ?thesis
    by (simp add: to_double_scaled [of "- (1 / 51)" 58])
qed

lemma signal_class_cases:
  "(signal_class c = 1 \<longleftrightarrow> change_gt c (to_double 0.02))
   \<and> (signal_class c = - 1 \<longleftrightarrow> change_lt c (- to_double 0.02))
   \<and> (signal_class c = 0 \<longleftrightarrow> \<not> change_gt c (to_double 0.02) \<and> \<not> change_lt c (- to_double 0.02))"
proof -
  have "0 < to_double 0.02"
    using to_double_fiftieth(1) by simp
  then show ?thesis
    by (cases c) (auto simp: signal_class_def Let_def)
qed

lemma generate_labels_Inr:
  assumes "generate_labels data k = Inr lab" and "map_of data ''Close'' = Some close"
  shows "l_price_change lab =
      map (\<lambda>(f, c). price_change f c) (zip (drop k close @ replicate (min k (length close)) None) close)"
    and "l_signal lab = map signal_class (l_price_change lab)"
  using assms by (auto simp: generate_labels_def Let_def shift_back_def)

lemma generate_labels_rows:
  assumes "generate_labels data k = Inr lab" and "map_of data ''Close'' = Some close"
  shows "length (l_price_change lab) = length close"
    and "i + k < length close \<Longrightarrow> l_price_change lab ! i = price_change (close ! (i + k)) (close ! i)"
    and "i < length close \<Longrightarrow> length close \<le> i + k \<Longrightarrow> l_price_change lab ! i = NaN"
proof -
  note pc = generate_labels_Inr(1) [OF assms]
  show "length (l_price_change lab) = length close"
    by (simp add: pc)
  show "l_price_change lab ! i = price_change (close ! (i + k)) (close ! i)" if "i + k < length close"
  proof -
    from that have "i < length close - k" by simp
    with that show ?thesis
      by (simp add: pc nth_append add.commute)
  qed
  show "l_price_change lab ! i = NaN" if "i < length close" "length close \<le> i + k"
  proof -
    from that have "\<not> i < length close - k" "i - (length close - k) < min k (length close)"
      by auto
    with that show ?thesis
      by (simp add: pc nth_append)
  qed
qed

text \<open>
  C5. For every frame with a close column and every row, the row's price change is the
  rounded quotient \<open>(future - close) / close\<close> of the close \<open>days_ahead\<close> rows on and the
  row's own close (undefined where the frame ends before), and the label is 1 exactly when
  the price change is strictly greater than the double \<^verbatim>\<open>0.02\<close>, -1 exactly when it
  is strictly less than the double \<^verbatim>\<open>-0.02\<close>, and 0 otherwise (so also where the price
  change is undefined); a price change equal to \<^verbatim>\<open>0.02\<close> or to \<^verbatim>\<open>-0.02\<close> gives 0.
\<close>

theorem generate_labels_thresholds:
  assumes "generate_labels data days_ahead = Inr lab" and "i < length (l_price_change lab)"
  shows "length (l_signal lab) = length (l_price_change lab)
     \<and> (\<exists>close. map_of data ''Close'' = Some close \<and> length (l_price_change lab) = length close
          \<and> l_price_change lab ! i =
              (if i + days_ahead < length close
               then price_change (close ! (i + days_ahead)) (close ! i) else NaN))
     \<and> (l_signal lab ! i = 1 \<longleftrightarrow> change_gt (l_price_change lab ! i) (to_double 0.02))
     \<and> (l_signal lab ! i = - 1 \<longleftrightarrow> change_lt (l_price_change lab ! i) (- to_double 0.02))
     \<and> (l_signal lab ! i = 0 \<longleftrightarrow>
          \<not> change_gt (l_price_change lab ! i) (to_double 0.02)
          \<and> \<not> change_lt (l_price_change lab ! i) (- to_double 0.02))
     \<and> (l_price_change lab ! i = Fin (to_double 0.02) \<longrightarrow> l_signal lab ! i = 0)
     \<and> (l_price_change lab ! i = Fin (- to_double 0.02) \<longrightarrow> l_signal lab ! i = 0)"
proof -
  from assms(1) obtain close where close: "map_of data ''Close'' = Some close"
    by (auto simp: generate_labels_def split: option.splits)
  note rows = generate_labels_rows [OF assms(1) close]
  from assms(2) rows(1) have i: "i < length close" by simp
  have pc: "l_price_change lab ! i =
      (if i + days_ahead < length close
       then price_change (close ! (i + days_ahead)) (close ! i) else NaN)"
    using rows(2) [of i] rows(3) [of i] i by simp
  have sig: "l_signal lab = map signal_class (l_price_change lab)"
    by (rule generate_labels_Inr(2) [OF assms(1) close])
  then have nth: "l_signal lab ! i = signal_class (l_price_change lab ! i)"
    using assms(2) by simp
  have len: "length (l_signal lab) = length (l_price_change lab)"
    by (simp add: sig)
  have pos: "0 < to_double (1 / 50)"
    by (simp add: to_double_fiftieth(1))
  have at: "signal_class (Fin (to_double 0.02)) = 0" "signal_class (Fin (- to_double 0.02)) = 0"
    using pos by (simp_all add: signal_class_def Let_def)
  have ex: "\<exists>close. map_of data ''Close'' = Some close \<and> length (l_price_change lab) = length close
      \<and> l_price_change lab ! i =
          (if i + days_ahead < length close
           then price_change (close ! (i + days_ahead)) (close ! i) else NaN)"
    using close rows(1) pc by blast
  show ?thesis
    unfolding nth using len ex at signal_class_cases [of "l_price_change lab ! i"]
    by (intro conjI impI) simp_all
qed

theorem generate_labels_thresholds_witness:
  "generate_labels boundary_bars 1 =
     Inr \<lparr>l_data = [(''Close'', [Some 50, Some 51, Some 50, Some 49, Some 98, Some 49]),
                     (''Future_Price'', [Some 51, Some 50, Some 49, Some 98, Some 49, None])],
          l_price_change =
            [Fin (to_double 0.02), Fin (to_double (- (1 / 51))), Fin (- to_double 0.02), Fin 1,
             Fin (- (1 / 2)), NaN],
          l_signal = [0, 0, 0, 1, - 1, 0]\<rparr>
   \<and> (2::nat) < length [Fin (to_double 0.02), Fin (to_double (- (1 / 51))), Fin (- to_double 0.02),
        Fin 1, Fin (- (1 / 2)), NaN]
   \<and> \<not> change_lt (Fin (- to_double 0.02)) (- to_double 0.02)"
proof -
  have g: "generate_labels boundary_bars 1 =
     Inr \<lparr>l_data = [(''Close'', [Some 50, Some 51, Some 50, Some 49, Some 98, Some 49]),
                     (''Future_Price'', [Some 51, Some 50, Some 49, Some 98, Some 49, None])],
          l_price_change =
            [Fin (to_double 0.02), Fin (to_double (- (1 / 51))), Fin (- to_double 0.02), Fin 1,
             Fin (- (1 / 2)), NaN],
          l_signal = [0, 0, 0, 1, - 1, 0]\<rparr>"
    by (simp add: generate_labels_def boundary_bars_def shift_back_def signal_class_def Let_def
        to_double_exact to_double_fiftieth to_double_fifty_first)
  show ?thesis
    using generate_labels_thresholds [OF g, of 2] g by simp
qed

text \<open>
  A fall from 51 to 49.98, two percent in decimal arithmetic, is below the threshold in
  doubles: the quotient is the double \<^verbatim>\<open>-0.020000000000000063\<close>, and the row is
  labelled Sell.
\<close>

lemma to_double_decimal:
  "to_double 49.98 = 7034059667999293 / 2 ^ 47"
  "to_double (7034059667999293 / 2 ^ 47 - 51) = - (4593671619917920 / 2 ^ 52)"
  "to_double (- (4593671619917920 / 2 ^ 52) / 51) = - (5764607523034253 / 2 ^ 58)"
proof -
  have r1: "round_half_even (49.98 * 2 ^ 47) = 7034059667999293"
    by (simp add: round_half_even_def)
  have "to_double 49.98 = real_of_int (round_half_even (49.98 * 2 ^ 47)) / 2 ^ 47"
    by (rule to_double_scaled) simp_all
  then show "to_double 49.98 = 7034059667999293 / 2 ^ 47"
    unfolding r1 by simp
  have r2: "round_half_even ((7034059667999293 / 2 ^ 47 - 51) * 2 ^ 52) = - 4593671619917920"
    by (simp add: round_half_even_def)
  have "to_double (7034059667999293 / 2 ^ 47 - 51) =
      real_of_int (round_half_even ((7034059667999293 / 2 ^ 47 - 51) * 2 ^ 52)) / 2 ^ 52"
    by (rule to_double_scaled) simp_all
  then show "to_double (7034059667999293 / 2 ^ 47 - 51) = - (4593671619917920 / 2 ^ 52)"
    unfolding r2 by simp
  have r3: "round_half_even (- (4593671619917920 / 2 ^ 52) / 51 * 2 ^ 58) = - 5764607523034253"
    by (simp add: round_half_even_def)
  have "to_double (- (4593671619917920 / 2 ^ 52) / 51) =
      real_of_int (round_half_even (- (4593671619917920 / 2 ^ 52) / 51 * 2 ^ 58)) / 2 ^ 58"
    by (rule to_double_scaled) simp_all
  then show "to_double (- (4593671619917920 / 2 ^ 52) / 51) = - (5764607523034253 / 2 ^ 58)"
    unfolding r3 by simp
qed

lemma decimal_price_change:
  "price_change (Some (to_double 49.98)) (Some 51) = Fin (- (5764607523034253 / 2 ^ 58))"
  unfolding price_change.simps to_double_decimal by simp

lemma decimal_two_percent_fall:
  "generate_labels decimal_bars 1 =
     Inr \<lparr>l_data = [(''Close'', [Some 51, Some (to_double 49.98)]),
                     (''Future_Price'', [Some (to_double 49.98), None])],
          l_price_change = [Fin (- (5764607523034253 / 2 ^ 58)), NaN],
          l_signal = [- 1, 0]\<rparr>
   \<and> - (5764607523034253 / 2 ^ 58) < - to_double 0.02"
  using decimal_price_change
  by (simp add: generate_labels_def decimal_bars_def shift_back_def signal_class_def Let_def
      to_double_fiftieth del: price_change.simps(1))

section \<open>Properties of the indicator block\<close>

lemma map_of_update: "map_of (AList.update k v al) k' = (if k' = k then Some v else map_of al k')"
  by (simp add: update_conv')

lemma length_align: "length (align n v) = n"
  by (simp add: align_def)

lemma n_rows_update: "n_rows (AList.update c (align (n_rows data) v) data) = n_rows data"
  by (cases data) (auto simp: n_rows_def length_align)

lemma n_rows_assign_columns: "n_rows (assign_columns lib cs data) = n_rows data"
  by (induction cs arbitrary: data) (auto simp: n_rows_update split: sum.splits)

lemma assign_columns_untouched:
  "c' \<notin> set cs \<Longrightarrow> map_of (assign_columns lib cs data) c' = map_of data c'"
  by (induction cs arbitrary: data) (auto simp: map_of_update split: sum.splits)

lemma assign_columns_stops:
  "lib c (assign_columns lib pre data) = Inl err \<Longrightarrow>
   assign_columns lib (pre @ c # post) data = assign_columns lib pre data"
  by (induction pre arbitrary: data) (auto split: sum.splits)

text \<open>
  The frame a computation sees is the input with the columns before it assigned: while
  every computation so far has returned, the block runs on.
\<close>

lemma assign_columns_append:
  assumes "\<forall>j<length pre. \<exists>v. lib (pre ! j) (assign_columns lib (take j pre) data) = Inr v"
  shows "assign_columns lib (pre @ post) data = assign_columns lib post (assign_columns lib pre data)"
  using assms
proof (induction pre arbitrary: data)
  case Nil
  then show ?case by simp
next
  case (Cons p ps)
  from Cons.prems [rule_format, of 0] obtain v0 where v0: "lib p data = Inr v0"
    by auto
  define data' where "data' = AList.update p (align (n_rows data) v0) data"
  have "\<exists>v. lib (ps ! j) (assign_columns lib (take j ps) data') = Inr v" if "j < length ps" for j
    using Cons.prems [rule_format, of "Suc j"] that v0 by (simp add: data'_def)
  then have "assign_columns lib (ps @ post) data' = assign_columns lib post (assign_columns lib ps data')"
    using Cons.IH [of data'] by blast
  then show ?case
    using v0 by (simp add: data'_def)
qed

lemma assign_columns_computed:
  assumes "\<forall>j<length pre. \<exists>v. lib (pre ! j) (assign_columns lib (take j pre) data) = Inr v"
    and "distinct pre" and "j < length pre"
  shows "\<exists>v. lib (pre ! j) (assign_columns lib (take j pre) data) = Inr v
     \<and> map_of (assign_columns lib pre data) (pre ! j) = Some (align (n_rows data) v)"
proof -
  from assms(1,3) obtain v where v: "lib (pre ! j) (assign_columns lib (take j pre) data) = Inr v"
    by blast
  have split: "pre = take j pre @ pre ! j # drop (Suc j) pre"
    using assms(3) by (simp add: id_take_nth_drop [symmetric])
  have ok: "\<forall>i<length (take j pre). \<exists>v. lib (take j pre ! i)
      (assign_columns lib (take i (take j pre)) data) = Inr v"
    using assms(1,3) by (simp add: min_def)
  have "assign_columns lib pre data =
      assign_columns lib (pre ! j # drop (Suc j) pre) (assign_columns lib (take j pre) data)"
    using assign_columns_append [OF ok, of "pre ! j # drop (Suc j) pre"] split by simp
  also have "\<dots> = assign_columns lib (drop (Suc j) pre)
      (AList.update (pre ! j) (align (n_rows data) v) (assign_columns lib (take j pre) data))"
    using v by (simp add: n_rows_assign_columns)
  finally have r: "assign_columns lib pre data = assign_columns lib (drop (Suc j) pre)
      (AList.update (pre ! j) (align (n_rows data) v) (assign_columns lib (take j pre) data))" .
  have "pre ! j \<notin> set (drop (Suc j) pre)"
    using assms(2) split by (metis distinct.simps(2) distinct_append)
  then have "map_of (assign_columns lib pre data) (pre ! j) = Some (align (n_rows data) v)"
    unfolding r by (simp add: assign_columns_untouched map_of_update)
  with v show ?thesis by blast
qed

text \<open>
  C7, as amended. For every input frame and every library: if the computation of the
  indicator column at position \<open>k\<close> raises on the frame it is given (the input with the
  columns before \<open>k\<close> assigned), and each computation before it has returned a series on
  the frame it was given, then the function returns, without raising, the input with
  exactly the columns before \<open>k\<close> assigned: each of them holds the series its computation
  returned, aligned with the rows; the failing column and every indicator column after it
  are as they were in the input (missing, for fresh market data), whatever their
  computation would have returned; and every other column of the input is unchanged.
\<close>

theorem indicator_failure_ends_the_block:
  assumes "k < length indicator_columns"
    and "\<forall>j<k. \<exists>v. lib (indicator_columns ! j)
           (assign_columns lib (take j indicator_columns) data) = Inr v"
    and "lib (indicator_columns ! k) (assign_columns lib (take k indicator_columns) data) = Inl err"
  shows "calculate_technical_indicators lib data = assign_columns lib (take k indicator_columns) data
     \<and> (\<forall>j<k. \<exists>v. lib (indicator_columns ! j)
           (assign_columns lib (take j indicator_columns) data) = Inr v
         \<and> map_of (calculate_technical_indicators lib data) (indicator_columns ! j) =
             Some (align (n_rows data) v))
     \<and> (\<forall>j. k \<le> j \<and> j < length indicator_columns \<longrightarrow>
           map_of (calculate_technical_indicators lib data) (indicator_columns ! j) =
           map_of data (indicator_columns ! j))
     \<and> (\<forall>c'. c' \<notin> set (take k indicator_columns) \<longrightarrow>
           map_of (calculate_technical_indicators lib data) c' = map_of data c')"
proof -
  define pre where "pre = take k indicator_columns"
  have split: "indicator_columns = pre @ indicator_columns ! k # drop (Suc k) indicator_columns"
    unfolding pre_def using assms(1) by (simp add: id_take_nth_drop [symmetric])
  have r: "calculate_technical_indicators lib data = assign_columns lib pre data"
    unfolding calculate_technical_indicators_def
    using assign_columns_stops [of lib "indicator_columns ! k" pre data err
        "drop (Suc k) indicator_columns"] assms(3) split
    by (simp add: pre_def)
  have dist: "distinct indicator_columns" by (simp add: indicator_columns_def)
  then have dpre: "distinct pre" by (simp add: pre_def)
  have len: "length pre = k" using assms(1) by (simp add: pre_def)
  have ok: "\<forall>j<length pre. \<exists>v. lib (pre ! j) (assign_columns lib (take j pre) data) = Inr v"
    using assms(2) by (simp add: pre_def min_def)
  have c1: "\<forall>j<k. \<exists>v. lib (indicator_columns ! j)
           (assign_columns lib (take j indicator_columns) data) = Inr v
         \<and> map_of (assign_columns lib pre data) (indicator_columns ! j) =
             Some (align (n_rows data) v)"
  proof (intro allI impI)
    fix j assume j: "j < k"
    with len have "j < length pre" by simp
    from assign_columns_computed [OF ok dpre this] j show "\<exists>v. lib (indicator_columns ! j)
           (assign_columns lib (take j indicator_columns) data) = Inr v
         \<and> map_of (assign_columns lib pre data) (indicator_columns ! j) =
             Some (align (n_rows data) v)"
      by (simp add: pre_def min_def)
  qed
  have c3: "\<forall>c'. c' \<notin> set pre \<longrightarrow> map_of (assign_columns lib pre data) c' = map_of data c'"
    by (simp add: assign_columns_untouched)
  have out: "indicator_columns ! j \<notin> set pre" if "k \<le> j" "j < length indicator_columns" for j
  proof
    assume "indicator_columns ! j \<in> set pre"
    then obtain i where i: "i < length pre" "pre ! i = indicator_columns ! j"
      by (auto simp: in_set_conv_nth)
    with len have "i < k" "indicator_columns ! i = indicator_columns ! j"
      by (simp_all add: pre_def)
    with dist that assms(1) show False
      by (simp add: nth_eq_iff_index_eq)
  qed
  have c2: "\<forall>j. k \<le> j \<and> j < length indicator_columns \<longrightarrow>
      map_of (assign_columns lib pre data) (indicator_columns ! j) =
      map_of data (indicator_columns ! j)"
    using out by (simp add: assign_columns_untouched)
  show ?thesis
    unfolding r using c1 c2 c3 by (simp add: pre_def)
qed

text \<open>
  Bars without a volume column, with a library that reads its input: the volume average
  raises, the eleven columns before it hold their series, and the rate of change and the
  stochastic oscillator, which read the close, high and low only, are not computed.
\<close>

lemma column_reader_run:
  "\<forall>j<11. lib_ok j"
  if "lib_ok 0" "lib_ok 1" "lib_ok 2" "lib_ok 3" "lib_ok 4" "lib_ok 5" "lib_ok 6" "lib_ok 7"
    "lib_ok 8" "lib_ok 9" "lib_ok 10"
  for lib_ok :: "nat \<Rightarrow> bool"
proof (intro allI impI)
  fix j :: nat assume "j < 11"
  then have "j = 0 \<or> j = 1 \<or> j = 2 \<or> j = 3 \<or> j = 4 \<or> j = 5 \<or> j = 6 \<or> j = 7 \<or> j = 8 \<or> j = 9
      \<or> j = 10"
    by arith
  with that show "lib_ok j" by auto
qed

lemma run_without_volume:
  "assign_columns column_reader (take 11 indicator_columns) bars_without_volume =
     bars_without_volume @
     map (\<lambda>c. (c, [Some 1, Some 1, Some 1]))
       [''RSI'', ''MACD'', ''MACD_Signal'', ''MACD_Hist'', ''BB_Upper'', ''BB_Lower'',
        ''BB_Middle'', ''SMA_20'', ''SMA_50'', ''EMA_12'', ''EMA_26'']"
  by (simp add: indicator_columns_def bars_without_volume_def column_reader_def
      source_columns_def n_rows_def align_def numeral_3_eq_3)

theorem indicator_failure_ends_the_block_witness:
  "indicator_columns ! 11 = ''Volume_SMA''
   \<and> column_reader ''Volume_SMA''
       (assign_columns column_reader (take 11 indicator_columns) bars_without_volume) = Inl KeyError
   \<and> calculate_technical_indicators column_reader bars_without_volume =
       bars_without_volume @
       map (\<lambda>c. (c, [Some 1, Some 1, Some 1]))
         [''RSI'', ''MACD'', ''MACD_Signal'', ''MACD_Hist'', ''BB_Upper'', ''BB_Lower'',
          ''BB_Middle'', ''SMA_20'', ''SMA_50'', ''EMA_12'', ''EMA_26'']
   \<and> column_reader (indicator_columns ! 10)
       (assign_columns column_reader (take 10 indicator_columns) bars_without_volume) =
       Inr [Some 1, Some 1, Some 1]
   \<and> map_of (calculate_technical_indicators column_reader bars_without_volume) ''EMA_26'' =
       Some (align (n_rows bars_without_volume) [Some 1, Some 1, Some 1])
   \<and> map_of (calculate_technical_indicators column_reader bars_without_volume) ''Volume_SMA'' = None
   \<and> map_of (calculate_technical_indicators column_reader bars_without_volume) ''ROC'' = None"
proof -
  have h1: "11 < length indicator_columns"
    by (simp add: indicator_columns_def)
  have h2: "\<forall>j<11. \<exists>v. column_reader (indicator_columns ! j)
      (assign_columns column_reader (take j indicator_columns) bars_without_volume) = Inr v"
    by (rule column_reader_run)
      (simp_all add: indicator_columns_def bars_without_volume_def column_reader_def
        source_columns_def n_rows_def align_def numeral_3_eq_3)
  have h3: "column_reader (indicator_columns ! 11)
      (assign_columns column_reader (take 11 indicator_columns) bars_without_volume) = Inl KeyError"
    unfolding run_without_volume
    by (simp add: indicator_columns_def bars_without_volume_def column_reader_def
        source_columns_def)
  have n: "indicator_columns ! 11 = ''Volume_SMA''" "indicator_columns ! 10 = ''EMA_26''"
    "indicator_columns ! 12 = ''ROC''"
    by (simp_all add: indicator_columns_def)
  have d: "map_of bars_without_volume ''Volume_SMA'' = None"
    "map_of bars_without_volume ''ROC'' = None"
    by (simp_all add: bars_without_volume_def)
  have v10: "column_reader (indicator_columns ! 10)
       (assign_columns column_reader (take 10 indicator_columns) bars_without_volume) =
       Inr [Some 1, Some 1, Some 1]"
    by (simp add: indicator_columns_def bars_without_volume_def column_reader_def
        source_columns_def n_rows_def align_def numeral_3_eq_3)
  note t = indicator_failure_ends_the_block [OF h1 h2 h3]
  note r = conjunct1 [OF t]
  note a = conjunct1 [OF conjunct2 [OF t]]
  note b = conjunct1 [OF conjunct2 [OF conjunct2 [OF t]]]
  have "\<exists>v. column_reader (indicator_columns ! 10)
           (assign_columns column_reader (take 10 indicator_columns) bars_without_volume) = Inr v
         \<and> map_of (calculate_technical_indicators column_reader bars_without_volume)
             (indicator_columns ! 10) = Some (align (n_rows bars_without_volume) v)"
    by (rule a [rule_format]) simp
  then obtain v where v: "column_reader (indicator_columns ! 10)
        (assign_columns column_reader (take 10 indicator_columns) bars_without_volume) = Inr v"
      "map_of (calculate_technical_indicators column_reader bars_without_volume)
        (indicator_columns ! 10) = Some (align (n_rows bars_without_volume) v)"
    by blast
  from v(1) have "v = [Some 1, Some 1, Some 1]"
    unfolding v10 by simp
  with v(2) have e: "map_of (calculate_technical_indicators column_reader bars_without_volume) ''EMA_26'' =
       Some (align (n_rows bars_without_volume) [Some 1, Some 1, Some 1])"
    unfolding n by simp
  have "map_of (calculate_technical_indicators column_reader bars_without_volume)
      (indicator_columns ! 11) = map_of bars_without_volume (indicator_columns ! 11)"
    "map_of (calculate_technical_indicators column_reader bars_without_volume)
      (indicator_columns ! 12) = map_of bars_without_volume (indicator_columns ! 12)"
    using b [rule_format, of 11] b [rule_format, of 12] by (simp_all add: indicator_columns_def)
  then have m: "map_of (calculate_technical_indicators column_reader bars_without_volume) ''Volume_SMA'' = None"
    "map_of (calculate_technical_indicators column_reader bars_without_volume) ''ROC'' = None"
    unfolding n d by simp_all
  show ?thesis
    using n(1) h3 [unfolded n] r [unfolded run_without_volume] v10 e m by simp
qed

text \<open>
  C7 as stated fails. On bars without a volume column exactly one computation raises on
  the input, the volume average; the rate of change and the stochastic oscillator return
  their series on the input and on the frame the function returns, and yet their columns
  are missing from it.
\<close>

theorem one_failure_loses_later_indicators:
  "filter (\<lambda>c. isl (column_reader c bars_without_volume)) indicator_columns = [''Volume_SMA'']
   \<and> column_reader ''ROC'' (calculate_technical_indicators column_reader bars_without_volume) =
       Inr [Some 1, Some 1, Some 1]
   \<and> column_reader ''Stoch'' (calculate_technical_indicators column_reader bars_without_volume) =
       Inr [Some 1, Some 1, Some 1]
   \<and> map_of (calculate_technical_indicators column_reader bars_without_volume) ''ROC'' = None
   \<and> map_of (calculate_technical_indicators column_reader bars_without_volume) ''Stoch'' = None
   \<and> map (\<lambda>c. c \<in> dom (map_of (calculate_technical_indicators column_reader bars_without_volume)))
       indicator_columns =
       [True, True, True, True, True, True, True, True, True, True, True, False, False, False]"
  by (simp add: calculate_technical_indicators_def indicator_columns_def bars_without_volume_def
      column_reader_def source_columns_def n_rows_def align_def numeral_3_eq_3 dom_def)

section \<open>Properties of training\<close>

lemma train_model_unfold:
  assumes "download_stock_data e symbol ''2y'' = Some data0" and "\<not> frame_empty data0"
    and "generate_labels (calculate_technical_indicators (ta e) data0) 1 = Inr data"
    and "prepare_features (l_data data) = (X, cols)" and "50 \<le> length X"
  shows "train_model e self symbol =
     (case train_test_split e (map (\<lambda>(i, row). scale_row (scaler_fit (length cols) (map snd X)) row) X)
             (map (\<lambda>(i, row). l_signal data ! i) X) of
        Inl err \<Rightarrow>
          (self\<lparr>self_feature_columns := Some cols,
                self_scaler := Some (scaler_fit (length cols) (map snd X))\<rparr>,
           Inl (Training_error err))
      | Inr ((X_train, y_train), (X_test, y_test)) \<Rightarrow>
          (self\<lparr>self_feature_columns := Some cols,
                self_scaler := Some (scaler_fit (length cols) (map snd X)),
                self_model := Some (rf_fit e X_train y_train), self_is_trained := True\<rparr>,
           Inr \<lparr>train_accuracy = score e (rf_fit e X_train y_train) X_train y_train,
                test_accuracy = score e (rf_fit e X_train y_train) X_test y_test,
                data_points = length X\<rparr>))"
proof -
  from assms(5) have "\<not> length X < 50" by simp
  then show ?thesis
    unfolding train_model_def
    by (simp add: assms(1-4) Let_def del: One_nat_def split: sum.split prod.split)
qed

lemma train_model_fits_scaler:
  assumes "download_stock_data e symbol ''2y'' = Some data0" and "\<not> frame_empty data0"
    and "generate_labels (calculate_technical_indicators (ta e) data0) 1 = Inr data"
    and "prepare_features (l_data data) = (X, cols)" and "50 \<le> length X"
  shows "self_scaler (fst (train_model e self symbol)) = Some (scaler_fit (length cols) (map snd X))"
  unfolding train_model_unfold [OF assms]
  by (simp split: sum.split prod.split)

text \<open>The example environment: what training on each of its three symbols leaves.\<close>

lemma generate_labels_Close:
  assumes "map_of data0 ''Close'' = Some close"
  shows "\<exists>data. generate_labels data0 k = Inr data
     \<and> l_data data = AList.update ''Future_Price'' (shift_back k close) data0"
  using assms by (simp add: generate_labels_def Let_def)

lemma calculate_demo: "calculate_technical_indicators (ta demo_env) data = data"
  by (simp add: calculate_technical_indicators_def indicator_columns_def demo_env_def)

lemma busy_features:
  "prepare_features (AList.update ''Future_Price'' (shift_back 1 (replicate 60 (Some 1))) busy_first_day) =
     (zip [0..<60] ([1, 1, 1, 1, 2] # replicate 59 [1, 1, 1, 1, 1]),
      [''Open'', ''High'', ''Low'', ''Close'', ''Volume''])"
  by code_simp

lemma snd_zip_upt: "length rows = n \<Longrightarrow> map snd (zip [0..<n] rows) = rows"
  by (simp add: map_snd_zip)

lemma feature_Cons_replicate: "feature (r # replicate n r') j = (r ! j) # replicate n (r' ! j)"
  by (simp add: feature_def)

lemma mean_Cons_replicate: "mean (a # replicate n b) = (a + real n * b) / (1 + real n)"
  by (simp add: mean_def sum_list_replicate add.commute)

lemma variance_Cons_replicate:
  "variance (a # replicate n b) =
     ((a - (a + real n * b) / (1 + real n))\<^sup>2 + real n * (b - (a + real n * b) / (1 + real n))\<^sup>2)
       / (1 + real n)"
  unfolding variance_def mean_Cons_replicate list.map map_replicate mean_Cons_replicate ..

lemma upt_5: "[0..<5] = [0, 1, 2, 3, 4]"
  by code_simp

lemma busy_fit:
  "scaler_fit 5 ([1, 1, 1, 1, 2] # replicate 59 [1, 1, 1, 1, 1]) =
     \<lparr>scaler_mean = [1, 1, 1, 1, 61 / 60], scaler_var = [0, 0, 0, 0, 59 / 3600]\<rparr>"
  by (simp add: scaler_fit_def upt_5 feature_Cons_replicate mean_Cons_replicate
      variance_Cons_replicate power2_eq_square)

lemma busy_train_fit:
  "scaler_fit 5 (take 48 ([1, 1, 1, 1, 2] # replicate 59 [1, 1, 1, 1, 1])) =
     \<lparr>scaler_mean = [1, 1, 1, 1, 49 / 48], scaler_var = [0, 0, 0, 0, 47 / 2304]\<rparr>"
  by (simp add: scaler_fit_def upt_5 feature_Cons_replicate mean_Cons_replicate
      variance_Cons_replicate power2_eq_square)

lemma mean_replicate: "0 < n \<Longrightarrow> mean (replicate n b) = b"
  by (simp add: mean_def sum_list_replicate)

lemma variance_replicate: "0 < n \<Longrightarrow> variance (replicate n b) = 0"
  by (simp add: variance_def mean_replicate)

lemma feature_replicate: "feature (replicate n r) j = replicate n (r ! j)"
  by (simp add: feature_def)

lemma flat_fit:
  "scaler_fit 5 (replicate 60 [c, c, c, c, 1]) =
     \<lparr>scaler_mean = [c, c, c, c, 1], scaler_var = [0, 0, 0, 0, 0]\<rparr>"
  by (simp add: scaler_fit_def upt_5 feature_replicate mean_replicate variance_replicate)

lemma flat_features_1:
  "prepare_features (AList.update ''Future_Price'' (shift_back 1 (replicate 60 (Some 1))) (flat_bars 1 60)) =
     (zip [0..<60] (replicate 60 [1, 1, 1, 1, 1]), [''Open'', ''High'', ''Low'', ''Close'', ''Volume''])"
  by code_simp

lemma flat_features_2:
  "prepare_features (AList.update ''Future_Price'' (shift_back 1 (replicate 60 (Some 2))) (flat_bars 2 60)) =
     (zip [0..<60] (replicate 60 [2, 2, 2, 2, 1]), [''Open'', ''High'', ''Low'', ''Close'', ''Volume''])"
  by code_simp

lemma demo_labels:
  assumes "map_of data0 ''Close'' = Some close"
  shows "\<exists>data. generate_labels (calculate_technical_indicators (ta demo_env) data0) 1 = Inr data
     \<and> l_data data = AList.update ''Future_Price'' (shift_back 1 close) data0"
  unfolding calculate_demo using assms by (rule generate_labels_Close)

lemma demo_train:
  assumes dl: "history demo_env symbol ''2y'' = Some data0" and ne: "\<not> frame_empty data0"
    and cl: "map_of data0 ''Close'' = Some close"
    and pf: "prepare_features (AList.update ''Future_Price'' (shift_back 1 close) data0) = (X, cols)"
    and le: "50 \<le> length X"
  shows "\<exists>m accuracy. train_model demo_env self symbol =
     (self\<lparr>self_feature_columns := Some cols,
           self_scaler := Some (scaler_fit (length cols) (map snd X)),
           self_model := Some m, self_is_trained := True\<rparr>, Inr accuracy)"
proof -
  from demo_labels [OF cl] obtain data
    where gl: "generate_labels (calculate_technical_indicators (ta demo_env) data0) 1 = Inr data"
      and ld: "l_data data = AList.update ''Future_Price'' (shift_back 1 close) data0"
    by blast
  have dl': "download_stock_data demo_env symbol ''2y'' = Some data0"
    using dl by (simp add: download_stock_data_def)
  have pf': "prepare_features (l_data data) = (X, cols)"
    unfolding ld by (rule pf)
  have split: "train_test_split demo_env = first_rows_split"
    by (simp add: demo_env_def)
  have fit: "rf_fit demo_env = (\<lambda>X y. (X, y))"
    by (simp add: demo_env_def)
  show ?thesis
    unfolding train_model_unfold [OF dl' ne gl pf' le] split first_rows_split_def Let_def fit
    by (simp, intro exI, rule refl)
qed

lemma history_demo:
  "history demo_env ''AAA'' period = Some (flat_bars 1 60)"
  "history demo_env ''BBB'' period = Some (flat_bars 2 60)"
  "history demo_env ''CCC'' period = Some busy_first_day"
  by (simp_all add: demo_env_def)

lemma demo_frames:
  "\<not> frame_empty (flat_bars c 60)" "map_of (flat_bars c 60) ''Close'' = Some (replicate 60 (Some c))"
  "\<not> frame_empty busy_first_day" "map_of busy_first_day ''Close'' = Some (replicate 60 (Some 1))"
  by (simp_all add: frame_empty_def n_rows_def busy_first_day_def flat_bars_def update_conv')

lemma rows_60:
  "length rows = 60 \<Longrightarrow> 50 \<le> length (zip [0..<60] rows)"
  "length rows = 60 \<Longrightarrow> map snd (zip [0..<60] rows) = rows"
  "length [''Open'', ''High'', ''Low'', ''Close'', ''Volume''] = 5"
  by (simp_all add: map_snd_zip)

lemma train_AAA:
  "\<exists>m accuracy. train_model demo_env self ''AAA'' =
     (self\<lparr>self_feature_columns := Some [''Open'', ''High'', ''Low'', ''Close'', ''Volume''],
           self_scaler := Some \<lparr>scaler_mean = [1, 1, 1, 1, 1], scaler_var = [0, 0, 0, 0, 0]\<rparr>,
           self_model := Some m, self_is_trained := True\<rparr>, Inr accuracy)"
  using demo_train [OF history_demo(1) demo_frames(1,2) flat_features_1 rows_60(1), of self]
  by (simp only: rows_60 length_replicate flat_fit)

lemma train_BBB:
  "\<exists>m accuracy. train_model demo_env self ''BBB'' =
     (self\<lparr>self_feature_columns := Some [''Open'', ''High'', ''Low'', ''Close'', ''Volume''],
           self_scaler := Some \<lparr>scaler_mean = [2, 2, 2, 2, 1], scaler_var = [0, 0, 0, 0, 0]\<rparr>,
           self_model := Some m, self_is_trained := True\<rparr>, Inr accuracy)"
  using demo_train [OF history_demo(2) demo_frames(1,2) flat_features_2 rows_60(1), of self]
  by (simp only: rows_60 length_replicate flat_fit)

lemma train_CCC:
  "\<exists>m accuracy. train_model demo_env self ''CCC'' =
     (self\<lparr>self_feature_columns := Some [''Open'', ''High'', ''Low'', ''Close'', ''Volume''],
           self_scaler := Some \<lparr>scaler_mean = [1, 1, 1, 1, 61 / 60], scaler_var = [0, 0, 0, 0, 59 / 3600]\<rparr>,
           self_model := Some m, self_is_trained := True\<rparr>, Inr accuracy)"
proof -
  have l: "length ([1, 1, 1, 1, 2] # replicate 59 [1, 1, 1, 1, 1::real]) = 60" by simp
  show ?thesis
    using demo_train [OF history_demo(3) demo_frames(3,4) busy_features rows_60(1) [OF l], of self]
    by (simp only: rows_60(2) [OF l] rows_60(3) busy_fit)
qed


text \<open>
  C6, as amended. For every training input with at least 50 usable rows, the scaler's
  parameters are the per-feature mean and variance of all usable rows, the rows later held
  out for testing included: the scaler is fitted before the split, and putting any other
  split in place of the environment's leaves its parameters as they are.
\<close>

theorem scaler_fitted_on_all_rows:
  assumes "download_stock_data e symbol ''2y'' = Some data0" and "\<not> frame_empty data0"
    and "generate_labels (calculate_technical_indicators (ta e) data0) 1 = Inr data"
    and "prepare_features (l_data data) = (X, cols)" and "50 \<le> length X"
  shows "self_scaler (fst (train_model e self symbol)) = Some (scaler_fit (length cols) (map snd X))
     \<and> scaler_mean (scaler_fit (length cols) (map snd X)) =
         map (\<lambda>j. mean (feature (map snd X) j)) [0..<length cols]
     \<and> scaler_var (scaler_fit (length cols) (map snd X)) =
         map (\<lambda>j. variance (feature (map snd X) j)) [0..<length cols]
     \<and> self_scaler (fst (train_model (e\<lparr>train_test_split := other_split\<rparr>) self symbol)) =
         self_scaler (fst (train_model e self symbol))"
proof -
  let ?e = "e\<lparr>train_test_split := other_split\<rparr>"
  have a: "download_stock_data ?e symbol ''2y'' = Some data0"
    "generate_labels (calculate_technical_indicators (ta ?e) data0) 1 = Inr data"
    using assms(1,3) by (simp_all add: download_stock_data_def)
  have "self_scaler (fst (train_model ?e self symbol)) = Some (scaler_fit (length cols) (map snd X))"
    by (rule train_model_fits_scaler [OF a(1) assms(2) a(2) assms(4,5)])
  then show ?thesis
    using train_model_fits_scaler [OF assms, of self] by (simp add: scaler_fit_def)
qed

theorem scaler_fitted_on_all_rows_witness:
  "download_stock_data demo_env ''CCC'' ''2y'' = Some busy_first_day
   \<and> \<not> frame_empty busy_first_day
   \<and> self_scaler (fst (train_model demo_env init_predictor ''CCC'')) =
       Some \<lparr>scaler_mean = [1, 1, 1, 1, 61 / 60], scaler_var = [0, 0, 0, 0, 59 / 3600]\<rparr>"
proof -
  have dl: "download_stock_data demo_env ''CCC'' ''2y'' = Some busy_first_day"
    by (simp add: download_stock_data_def history_demo)
  from demo_labels [OF demo_frames(4)] obtain data
    where gl: "generate_labels (calculate_technical_indicators (ta demo_env) busy_first_day) 1 = Inr data"
      and ld: "l_data data =
        AList.update ''Future_Price'' (shift_back 1 (replicate 60 (Some 1))) busy_first_day"
    by blast
  have pf: "prepare_features (l_data data) =
     (zip [0..<60] ([1, 1, 1, 1, 2] # replicate 59 [1, 1, 1, 1, 1]),
      [''Open'', ''High'', ''Low'', ''Close'', ''Volume''])"
    unfolding ld by (rule busy_features)
  have l: "length ([1, 1, 1, 1, 2] # replicate 59 [1, 1, 1, 1, 1::real]) = 60" by simp
  have "self_scaler (fst (train_model demo_env init_predictor ''CCC'')) =
      Some (scaler_fit (length [''Open'', ''High'', ''Low'', ''Close'', ''Volume''])
        (map snd (zip [0..<60] ([1, 1, 1, 1, 2] # replicate 59 [1, 1, 1, 1, 1]))))"
    using scaler_fitted_on_all_rows [OF dl demo_frames(3) gl pf rows_60(1) [OF l]] by blast
  then show ?thesis
    using dl demo_frames(3) by (simp only: rows_60(2) [OF l] rows_60(3) busy_fit simp_thms)
qed

text \<open>
  C6 as stated fails. The sixty usable rows of the symbol \<open>CCC\<close> are one row with volume 2
  and fifty-nine with volume 1 (\<open>busy_features\<close>). The scaler that training leaves has
  the volume mean 61/60 of all sixty rows; the training partition of the example split, the
  first 48 rows, has the volume mean 49/48. (Whatever 48 rows a split keeps for training,
  their volume mean is 1 or 49/48, never 61/60.)
\<close>

theorem scaler_sees_held_out_rows:
  "self_scaler (fst (train_model demo_env init_predictor ''CCC'')) =
     Some \<lparr>scaler_mean = [1, 1, 1, 1, 61 / 60], scaler_var = [0, 0, 0, 0, 59 / 3600]\<rparr>
   \<and> train_test_split demo_env ([1, 1, 1, 1, 2] # replicate 59 [1, 1, 1, 1, 1]) (replicate 60 0) =
       Inr ((take 48 ([1, 1, 1, 1, 2] # replicate 59 [1, 1, 1, 1, 1]), replicate 48 0),
            (drop 48 ([1, 1, 1, 1, 2] # replicate 59 [1, 1, 1, 1, 1]), replicate 12 0))
   \<and> scaler_fit 5 (take 48 ([1, 1, 1, 1, 2] # replicate 59 [1, 1, 1, 1, 1])) =
       \<lparr>scaler_mean = [1, 1, 1, 1, 49 / 48], scaler_var = [0, 0, 0, 0, 47 / 2304]\<rparr>"
proof -
  from train_CCC [of init_predictor]
  have "self_scaler (fst (train_model demo_env init_predictor ''CCC'')) =
     Some \<lparr>scaler_mean = [1, 1, 1, 1, 61 / 60], scaler_var = [0, 0, 0, 0, 59 / 3600]\<rparr>"
    by auto
  moreover have "train_test_split demo_env ([1, 1, 1, 1, 2] # replicate 59 [1, 1, 1, 1, 1]) (replicate 60 0) =
       Inr ((take 48 ([1, 1, 1, 1, 2] # replicate 59 [1, 1, 1, 1, 1]), replicate 48 0),
            (drop 48 ([1, 1, 1, 1, 2] # replicate 59 [1, 1, 1, 1, 1]), replicate 12 0))"
    by (simp add: demo_env_def first_rows_split_def)
  ultimately show ?thesis
    using busy_train_fit by simp
qed

section \<open>Properties of the model cache\<close>

lemma predict_trained:
  "self_is_trained self \<Longrightarrow>
   predict e g self symbol days =
     (fst (predict_with e g self symbol days), self, snd (predict_with e g self symbol days))"
  by (simp add: predict_def split: prod.split)

lemma predict_untrained:
  "\<not> self_is_trained self \<Longrightarrow>
   fst (snd (predict e g self symbol days)) = fst (train_model e self symbol)"
  by (simp add: predict_def split: prod.split sum.split)

lemma train_model_success_flag:
  "snd (train_model e self symbol) = Inr accuracy \<Longrightarrow> self_is_trained (fst (train_model e self symbol))"
  by (auto simp: train_model_def Let_def split: option.splits if_splits sum.splits prod.splits)

text \<open>
  C4, as amended. The predictor holds one trained model for the whole process, not one per
  symbol. A request that finds the predictor untrained trains it on the history of that
  request's symbol (the predictor it leaves is the one \<^verbatim>\<open>train_model\<close> leaves for that
  symbol, trained when training succeeds); a request that finds it trained, whatever its
  symbol, leaves the predictor as it is and computes its result with that model.
\<close>

theorem model_cache_is_one_slot:
  "(self_is_trained self \<longrightarrow>
      fst (snd (predict e g self symbol days)) = self
    \<and> snd (snd (predict e g self symbol days)) = snd (predict_with e g self symbol days))
   \<and> (\<not> self_is_trained self \<longrightarrow>
        fst (snd (predict e g self symbol days)) = fst (train_model e self symbol))
   \<and> (\<forall>accuracy. snd (train_model e self symbol) = Inr accuracy \<longrightarrow>
        self_is_trained (fst (train_model e self symbol)))"
  by (simp add: predict_trained predict_untrained train_model_success_flag)


theorem model_cache_is_one_slot_witness:
  "\<not> self_is_trained (init_predictor :: (real list list \<times> int list) predictor)
   \<and> (\<exists>accuracy. snd (train_model demo_env init_predictor ''AAA'') = Inr accuracy)
   \<and> self_is_trained (fst (snd (predict demo_env 0 init_predictor ''AAA'' 3)))
   \<and> fst (snd (predict demo_env 0 (fst (snd (predict demo_env 0 init_predictor ''AAA'' 3))) ''AAA'' 5)) =
       fst (snd (predict demo_env 0 init_predictor ''AAA'' 3))"
proof -
  let ?init = "init_predictor :: (real list list \<times> int list) predictor"
  have n: "\<not> self_is_trained ?init"
    by (simp add: init_predictor_def)
  from train_AAA [of ?init] obtain accuracy
    where t: "snd (train_model demo_env ?init ''AAA'') = Inr accuracy"
    by auto
  have s1: "fst (snd (predict demo_env 0 ?init ''AAA'' 3)) = fst (train_model demo_env ?init ''AAA'')"
    using model_cache_is_one_slot [of ?init demo_env 0 "''AAA''" 3] n by blast
  have tr: "self_is_trained (fst (train_model demo_env ?init ''AAA''))"
    using model_cache_is_one_slot [of ?init demo_env 0 "''AAA''" 3] t by blast
  have "fst (snd (predict demo_env 0 (fst (train_model demo_env ?init ''AAA'')) ''AAA'' 5)) =
      fst (train_model demo_env ?init ''AAA'')"
    using model_cache_is_one_slot [of "fst (train_model demo_env ?init ''AAA'')" demo_env 0 "''AAA''" 5] tr
    by blast
  with n t tr show ?thesis
    unfolding s1 by blast
qed

text \<open>A request for the symbol \<open>BBB\<close> on a predictor trained elsewhere is answered.\<close>

lemma get_enhanced_signal_Inr:
  assumes "list_all (\<lambda>(c, v). v \<noteq> []) latest_data"
    and "map_of latest_data ''Close'' = Some (price # rest)"
    and "p \<noteq> []"
  shows "\<exists>final conf d. get_enhanced_signal latest_data m p = Inr (final, conf, Some d)"
proof -
  from extract_indicators_Inr [OF assms(1,2)] obtain ind
    where ex: "extract_indicators latest_data = Inr (price, ind)"
    by blast
  from fuse_Inr [OF assms(3), of "signal_scores_of price ind" m ind] obtain final conf d
    where "fuse (signal_scores_of price ind) m p ind = Inr (final, conf, Some d)"
    by blast
  then show ?thesis
    by (simp add: get_enhanced_signal_def ex and_then_def)
qed

lemma latest_BBB:
  "tail1 (flat_bars 2 60) =
     [(''Open'', [Some 2]), (''High'', [Some 2]), (''Low'', [Some 2]), (''Close'', [Some 2]),
      (''Volume'', [Some 1])]"
  by (simp add: tail1_def flat_bars_def)

lemma features_BBB:
  "prepare_features
     [(''Open'', [Some 2]), (''High'', [Some 2]), (''Low'', [Some 2]), (''Close'', [Some 2]),
      (''Volume'', [Some 1])] =
     ([(0, [2, 2, 2, 2, 1])], [''Open'', ''High'', ''Low'', ''Close'', ''Volume''])"
  by code_simp

lemma predict_with_BBB:
  assumes "self_scaler self = Some \<lparr>scaler_mean = [1, 1, 1, 1, 1], scaler_var = [0, 0, 0, 0, 0]\<rparr>"
    and "self_model self = Some m"
  shows "\<exists>r. snd (predict_with demo_env g self ''BBB'' days) = Inr r \<and> r_symbol r = ''BBB''"
proof -
  let ?latest = "[(''Open'', [Some 2]), (''High'', [Some 2]), (''Low'', [Some 2]),
      (''Close'', [Some 2]), (''Volume'', [Some (1::real)])]"
  have dl: "download_stock_data demo_env ''BBB'' ''6mo'' = Some (flat_bars 2 60)"
    by (simp add: download_stock_data_def history_demo)
  have st: "\<exists>x. scaler_transform (self_scaler self) [2, 2, 2, 2, 1] = Inr x"
    by (simp add: assms(1) scaler_transform_def)
  then obtain x where x: "scaler_transform (self_scaler self) [2, 2, 2, 2, 1] = Inr x" ..
  have rf: "rf_predict demo_env m x = 0" "rf_predict_proba demo_env m x = [0, 1, 0]"
    by (simp_all add: demo_env_def)
  have "list_all (\<lambda>(c, v). v \<noteq> []) ?latest" "map_of ?latest ''Close'' = Some (Some 2 # [])"
    "[0, 1, 0] \<noteq> ([]::real list)"
    by simp_all
  from get_enhanced_signal_Inr [OF this, of 0] obtain final conf d
    where ges: "get_enhanced_signal ?latest 0 [0, 1, 0] = Inr (final, conf, Some d)"
    by blast
  have cp: "column_iloc0 ?latest ''Close'' = Inr (Some 2)"
    by (simp add: column_iloc0_def iloc0_def)
  show ?thesis
    unfolding predict_with_def
    by (simp add: dl demo_frames(1) calculate_demo latest_BBB features_BBB x assms(2) rf ges cp
        Let_def split_beta)
qed

text \<open>
  C4 as stated fails. After a first request for \<open>AAA\<close> the predictor is trained, with the
  scaler fitted on the history of \<open>AAA\<close> (all prices 1). A request for \<open>BBB\<close> then
  returns a forecast and leaves that predictor unchanged: it used the model trained on
  \<open>AAA\<close>, where training on the history of \<open>BBB\<close> (all prices 2) gives another scaler.
\<close>

theorem other_symbol_reuses_model:
  "self_is_trained (fst (snd (predict demo_env 0 init_predictor ''AAA'' 3)))
   \<and> self_scaler (fst (snd (predict demo_env 0 init_predictor ''AAA'' 3))) =
       Some \<lparr>scaler_mean = [1, 1, 1, 1, 1], scaler_var = [0, 0, 0, 0, 0]\<rparr>
   \<and> fst (snd (predict demo_env 0 (fst (snd (predict demo_env 0 init_predictor ''AAA'' 3))) ''BBB'' 3)) =
       fst (snd (predict demo_env 0 init_predictor ''AAA'' 3))
   \<and> (\<exists>r. snd (snd (predict demo_env 0 (fst (snd (predict demo_env 0 init_predictor ''AAA'' 3)))
              ''BBB'' 3)) = Inr r \<and> r_symbol r = ''BBB'')
   \<and> self_scaler (fst (snd (predict demo_env 0 init_predictor ''BBB'' 3))) =
       Some \<lparr>scaler_mean = [2, 2, 2, 2, 1], scaler_var = [0, 0, 0, 0, 0]\<rparr>"
proof -
  let ?init = "init_predictor :: (real list list \<times> int list) predictor"
  have n: "\<not> self_is_trained ?init"
    by (simp add: init_predictor_def)
  define sA where "sA = fst (train_model demo_env ?init ''AAA'')"
  define sB where "sB = fst (train_model demo_env ?init ''BBB'')"
  have pA: "fst (snd (predict demo_env 0 ?init ''AAA'' 3)) = sA"
    and pB: "fst (snd (predict demo_env 0 ?init ''BBB'' 3)) = sB"
    unfolding sA_def sB_def using n by (simp_all add: predict_untrained)
  from train_AAA [of ?init] obtain m where
    A: "self_is_trained sA" "self_model sA = Some m"
      "self_scaler sA = Some \<lparr>scaler_mean = [1, 1, 1, 1, 1], scaler_var = [0, 0, 0, 0, 0]\<rparr>"
    unfolding sA_def by auto
  from train_BBB [of ?init] have
    B: "self_scaler sB = Some \<lparr>scaler_mean = [2, 2, 2, 2, 1], scaler_var = [0, 0, 0, 0, 0]\<rparr>"
    unfolding sB_def by auto
  have keep: "fst (snd (predict demo_env 0 sA ''BBB'' 3)) = sA"
    and res: "snd (snd (predict demo_env 0 sA ''BBB'' 3)) = snd (predict_with demo_env 0 sA ''BBB'' 3)"
    using A(1) by (simp_all add: predict_trained)
  from predict_with_BBB [OF A(3,2), of 0 3]
  have "\<exists>r. snd (snd (predict demo_env 0 sA ''BBB'' 3)) = Inr r \<and> r_symbol r = ''BBB''"
    unfolding res .
  with A B keep show ?thesis
    unfolding pA pB by blast
qed

end
